theory Spec2Isabelle
  imports Complex_Main "HOL-Library.Multiset"
begin

section \<open>Shared data model\<close>

text \<open>
  Exceptions of the Python sources are values. Only the exceptions that the modelled
  functions can raise are listed.
\<close>

datatype error =
    AttributeError
  | TypeError
  | ZeroDivisionError
  | KeyError
  | IndexError
  | TransactionNotFound string

section \<open>Tip listener utilities: \<open>filter_batch_result\<close>\<close>

text \<open>
  A Python \<open>dict\<close> keeps insertion order and has no duplicate keys; it is an association
  list here, and the absence of duplicate keys is a hypothesis where it matters.
  A \<open>defaultdict(list)\<close> is an association list of lists; \<open>d[k].append(x)\<close> creates the
  entry \<open>k\<close> at the end when it is missing.
\<close>

type_synonym ('k, 'v) dict = "('k \<times> 'v) list"

fun dd_append :: "'k \<Rightarrow> 'x \<Rightarrow> ('k, 'x list) dict \<Rightarrow> ('k, 'x list) dict" where
  "dd_append k x [] = [(k, [x])]"
| "dd_append k x ((k', xs) # rest) =
     (if k = k' then (k', xs @ [x]) # rest else (k', xs) # dd_append k x rest)"

text \<open>First loop: \<open>for k in data: mapping[k[1]].append(k)\<close>.\<close>

fun group_keys ::
  "('a \<times> 'q) list \<Rightarrow> ('q, ('a \<times> 'q) list) dict \<Rightarrow> ('q, ('a \<times> 'q) list) dict" where
  "group_keys [] mapping = mapping"
| "group_keys (k # ks) mapping = group_keys ks (dd_append (snd k) k mapping)"

text \<open>
  Inner loop: \<open>for val in mapping[query_id]: value = data[val]; results[query_id].append(value)\<close>.
  The subscript \<open>data[val]\<close> raises \<open>KeyError\<close> on a missing key.
\<close>

fun collect_values ::
  "('k, 'v) dict \<Rightarrow> 'q \<Rightarrow> 'k list \<Rightarrow> ('q, 'v list) dict \<Rightarrow> error + ('q, 'v list) dict" where
  "collect_values data query_id [] results = Inr results"
| "collect_values data query_id (val # vals) results =
     (case map_of data val of
        None \<Rightarrow> Inl KeyError
      | Some value \<Rightarrow> collect_values data query_id vals (dd_append query_id value results))"

text \<open>Outer loop: \<open>for query_id in mapping\<close>.\<close>

fun collect_all ::
  "('k, 'v) dict \<Rightarrow> ('q, 'k list) dict \<Rightarrow> ('q, 'v list) dict \<Rightarrow> error + ('q, 'v list) dict" where
  "collect_all data [] results = Inr results"
| "collect_all data ((query_id, vals) # rest) results =
     (case collect_values data query_id vals results of
        Inl e \<Rightarrow> Inl e
      | Inr results' \<Rightarrow> collect_all data rest results')"

definition filter_batch_result ::
  "('a \<times> 'q, 'v) dict \<Rightarrow> error + ('q, 'v list) dict" where
  "filter_batch_result data =
     (let mapping = group_keys (map fst data) []
      in collect_all data mapping [])"

text \<open>The number of values held by a dictionary of lists.\<close>

definition total_values :: "('k, 'x list) dict \<Rightarrow> nat" where
  "total_values d = sum_list (map (\<lambda>kv. length (snd kv)) d)"

section \<open>Status values and raising computations\<close>

text \<open>
  \<open>ResponseStatus\<close> is the status record of every fallible call: the fields \<open>ok\<close>,
  \<open>error\<close> and \<open>e\<close> (here \<open>exc\<close>, the exception that caused the failure). A fresh
  \<open>ResponseStatus()\<close> is the successful status: \<open>ensure_profitable\<close> returns it unchanged
  when the estimate passes. \<open>error_status(msg, e)\<close> builds a failed status.
\<close>

record response_status =
  ok :: bool
  error :: "string option"
  exc :: "error option"

definition ResponseStatus :: response_status where
  "ResponseStatus = \<lparr>ok = True, error = None, exc = None\<rparr>"

definition error_status :: "string \<Rightarrow> error option \<Rightarrow> response_status" where
  "error_status msg cause = \<lparr>ok = False, error = Some msg, exc = cause\<rparr>"

text \<open>Sequencing of computations that may raise: the first exception wins.\<close>

definition bind_e :: "error + 'a \<Rightarrow> ('a \<Rightarrow> error + 'b) \<Rightarrow> error + 'b" where
  "bind_e m f = (case m of Inl err \<Rightarrow> Inl err | Inr x \<Rightarrow> f x)"

text \<open>Attribute access \<open>obj.field\<close> on an \<open>Optional\<close> object: \<open>None\<close> has no attributes.\<close>

definition attr :: "('a \<Rightarrow> 'b) \<Rightarrow> 'a option \<Rightarrow> error + 'b" where
  "attr field obj = (case obj of None \<Rightarrow> Inl AttributeError | Some d \<Rightarrow> Inr (field d))"

text \<open>
  The outcome of a reporting loop run against a finite trace of per-cycle environments:
  the loop condition failed (\<open>Finished\<close>), an exception left the loop (\<open>Crashed\<close>), or the
  trace ended while the loop was still running (\<open>Running\<close>). The second component of a
  loop's result lists the sleeps it performed, in order.
\<close>

datatype loop_outcome = Finished | Crashed error | Running

section \<open>The backup reporter: \<open>ConditionalReporter\<close>\<close>

record GetDataBefore =
  retrieved :: bool
  value_bytes :: string
  timestampRetrieved :: int

text \<open>
  Of the reporter only the fields the modelled methods read are kept. \<open>datafeed\<close> is
  optional in the source; only its presence is tested, so it is represented by the
  descriptor of its query. \<open>wait_period\<close> is inherited from the base reporter.
\<close>

record conditional_reporter =
  datafeed :: "string option"
  stale_timeout :: int
  max_price_change :: real
  wait_period :: int

text \<open>
  The result of \<open>oracle.read("getDataBefore", query_id, current_time())\<close>: the returned
  tuple, if any, and the status of the read.
\<close>

type_synonym data_before_read = "(bool \<times> string \<times> int) option \<times> response_status"

definition get_tellor_latest_data ::
  "conditional_reporter \<Rightarrow> data_before_read \<Rightarrow> error + GetDataBefore option" where
  "get_tellor_latest_data self read_result =
     (if datafeed self = None then Inr None
      else case read_result of (data, status) \<Rightarrow>
        if \<not> ok status then Inr None
        else (case data of
                None \<Rightarrow> Inl TypeError
              | Some (r, v, t) \<Rightarrow>
                  Inr (Some \<lparr>retrieved = r, value_bytes = v, timestampRetrieved = t\<rparr>)))"

text \<open>
  \<open>conditions_met\<close>, statement by statement. The assignment
  \<open>tellor_value = tellor_data.value\<close> stands before the test \<open>tellor_data is None\<close>.
  The line \<open>eilf tellor_value\<close> between the third branch and the \<open>else\<close> is not Python and
  has no counterpart here; the remaining \<open>if\<close>/\<open>elif\<close>/\<open>else\<close> chain is kept in its order.
\<close>

definition conditions_met ::
  "conditional_reporter \<Rightarrow> data_before_read \<Rightarrow> int \<Rightarrow> error + bool" where
  "conditions_met self read_result time =
     (if datafeed self = None then Inr False
      else
        bind_e (get_tellor_latest_data self read_result) (\<lambda>tellor_data.
        let time_passed_since_tellor_report =
              (case tellor_data of Some d \<Rightarrow> time - timestampRetrieved d | None \<Rightarrow> time)
        in
        bind_e (attr value_bytes tellor_data) (\<lambda>tellor_value.
        if tellor_data = None then Inr True
        else bind_e (attr retrieved tellor_data) (\<lambda>is_retrieved.
          if \<not> is_retrieved then Inr True
          else if time_passed_since_tellor_report > stale_timeout self then Inr True
          else Inr False))))"

text \<open>
  One cycle of \<open>ConditionalReporter.report\<close> up to its sleep. \<open>is_online\<close>,
  \<open>has_native_token\<close> and \<open>report_once\<close> belong to the base reporter; their outcomes in
  the cycle are inputs. The result of \<open>report_once\<close> is discarded by the loop, so only
  whether it raises is kept.
\<close>

record cond_cycle =
  is_online :: bool
  has_native_token :: bool
  tellor_read :: data_before_read
  current_time :: int
  base_report_once :: "error + unit"

definition cond_cycle_body :: "conditional_reporter \<Rightarrow> cond_cycle \<Rightarrow> error + unit" where
  "cond_cycle_body self c =
     (if is_online c then
        (if has_native_token c then
           bind_e (conditions_met self (tellor_read c) (current_time c)) (\<lambda>met.
             if met then base_report_once c else Inr ())
         else Inr ())
      else Inr ())"

text \<open>\<open>while report_count is None or report_count > 0\<close>.\<close>

definition keep_reporting :: "int option \<Rightarrow> bool" where
  "keep_reporting report_count = (case report_count of None \<Rightarrow> True | Some n \<Rightarrow> n > 0)"

fun cond_report ::
  "conditional_reporter \<Rightarrow> int option \<Rightarrow> cond_cycle list \<Rightarrow> int list
     \<Rightarrow> loop_outcome \<times> int list" where
  "cond_report self report_count [] slept =
     (if keep_reporting report_count then (Running, slept) else (Finished, slept))"
| "cond_report self report_count (c # cs) slept =
     (if keep_reporting report_count then
        (case cond_cycle_body self c of
           Inl err \<Rightarrow> (Crashed err, slept)
         | Inr u \<Rightarrow>
             cond_report self (map_option (\<lambda>n. n - 1) report_count) cs
               (slept @ [wait_period self]))
      else (Finished, slept))"

section \<open>The Flashbots reporter\<close>

text \<open>
  \<open>expected_profit\<close> is a number or the string \<open>"YOLO"\<close>. Token amounts and the gas
  limit are integers. The fee fields are declared \<open>int\<close> in the source, so their sums and
  products are exact; they are carried as real numbers. Prices and the amounts in USD are
  Python floats: their values are real numbers, and every float operation of the profit
  calculation rounds its result to a double (see \<open>round_double\<close> below).
\<close>

datatype expected_profit = YOLO | Profit real

record flashbots_reporter =
  expected_profit :: expected_profit
  transaction_type :: int
  gas_limit :: int
  max_fee :: "real option"
  priority_fee :: "real option"
  legacy_gas_price :: "real option"
  chain_id :: int
  last_submission_timestamp :: int

text \<open>The fields read from the gas price datapoint of \<open>get_fee_info\<close>.\<close>

record etherscan_gas_price =
  suggestBaseFee :: real
  SafeGasPrice :: real

text \<open>
  What one call of \<open>ensure_profitable\<close> reads from outside:
  the result of \<open>oracle.read("getCurrentReward")\<close> (the pair \<open>(tips, tb_reward)\<close> and
  the read status), the latest values of the two price sources after the fetch
  (\<open>source.latest[0]\<close>, \<open>None\<close> when nothing was fetched), the first component of
  \<open>get_fee_info()\<close>, and the result of \<open>ethgasstation(style=gas_price_speed)\<close>.
\<close>

record profit_env =
  rewards_read :: "(int \<times> int) option \<times> response_status"
  price_eth_usd :: "real option"
  price_trb_usd :: "real option"
  fee_info :: "etherscan_gas_price option"
  gas_station :: "real option"

text \<open>Arithmetic on a value that may be \<open>None\<close> raises \<open>TypeError\<close>.\<close>

definition number :: "real option \<Rightarrow> error + real" where
  "number x = (case x of None \<Rightarrow> Inl TypeError | Some r \<Rightarrow> Inr r)"

text \<open>
  The branch on \<open>transaction_type\<close> of \<open>ensure_profitable\<close>: it resolves the fee fields,
  stores them on the reporter and yields \<open>costs\<close>. The reporter is returned also when an
  exception is raised, since assignments made before the exception persist.
\<close>

definition resolve_costs ::
  "flashbots_reporter \<Rightarrow> profit_env \<Rightarrow> (error + real) \<times> flashbots_reporter" where
  "resolve_costs self env =
     (if transaction_type self = 2 then
        (case attr suggestBaseFee (fee_info env) of
           Inl err \<Rightarrow> (Inl err, self)
         | Inr base_fee \<Rightarrow>
             (case (if priority_fee self = None
                    then bind_e (attr SafeGasPrice (fee_info env))
                           (\<lambda>p. Inr (self\<lparr>priority_fee := Some p\<rparr>))
                    else Inr self) of
                Inl err \<Rightarrow> (Inl err, self)
              | Inr self1 \<Rightarrow>
                  (case (if max_fee self1 = None
                         then bind_e (number (priority_fee self1))
                                (\<lambda>p. Inr (self1\<lparr>max_fee := Some (p + base_fee)\<rparr>))
                         else Inr self1) of
                     Inl err \<Rightarrow> (Inl err, self1)
                   | Inr self2 \<Rightarrow>
                       (bind_e (number (max_fee self2))
                          (\<lambda>m. Inr (real_of_int (gas_limit self2) * m)), self2))))
      else
        (let self1 = (if legacy_gas_price self = None \<or> legacy_gas_price self = Some 0
                      then self\<lparr>legacy_gas_price := gas_station env\<rparr>
                      else self)
         in (bind_e (number (legacy_gas_price self1))
               (\<lambda>g. Inr (real_of_int (gas_limit self1) * g)), self1)))"

subsection \<open>Float arithmetic\<close>

text \<open>
  A Python float is an IEEE 754 double: 53 significant bits, results rounded to nearest,
  ties to the even significand. \<open>normalise\<close> scales a positive number by powers of two
  until it lies in \<open>[2^52, 2^53)\<close>, counting the exponent; \<open>round_double\<close> rounds the
  scaled number to an integer and scales back. The exponent is not bounded here: a result
  below \<open>2^-1022\<close> or above the largest double is rounded like any other, where Python
  gives a subnormal number, zero or infinity. \<open>double_range\<close> says that a number is zero or
  within the normal range, where \<open>round_double\<close> is the rounding of the hardware.
\<close>

definition round_half_even :: "real \<Rightarrow> int" where
  "round_half_even x =
     (let f = \<lfloor>x\<rfloor>; d = x - of_int f
      in if d < 1 / 2 then f else if d > 1 / 2 then f + 1
         else if even f then f else f + 1)"

function normalise :: "real \<Rightarrow> int \<Rightarrow> real \<times> int" where
  "normalise m e =
     (if m \<le> 0 then (m, e)
      else if 2 ^ 53 \<le> m then normalise (m / 2) (e + 1)
      else if m < 2 ^ 52 then normalise (m * 2) (e - 1)
      else (m, e))"
  by pat_completeness auto
termination
proof (relation "measure (\<lambda>(m, e). if 2 ^ 53 \<le> m then nat \<lfloor>m\<rfloor>
                      else if 0 < m \<and> m < 2 ^ 52 then nat \<lceil>2 ^ 53 / m\<rceil> else 0)")
  show "wf (measure (\<lambda>(m, e). if 2 ^ 53 \<le> m then nat \<lfloor>m\<rfloor>
                      else if 0 < m \<and> m < 2 ^ 52 then nat \<lceil>2 ^ 53 / m\<rceil> else 0))"
    by simp
next
  fix m :: real and e :: int
  assume "\<not> m \<le> 0" and big: "2 ^ 53 \<le> m"
  have "\<lfloor>m / 2\<rfloor> < \<lfloor>m\<rfloor>"
    using big by (simp add: floor_less_iff) linarith
  moreover have "0 < \<lfloor>m\<rfloor>"
    using big by (simp add: less_floor_iff)
  ultimately show "((m / 2, e + 1), (m, e)) \<in> measure (\<lambda>(m, e). if 2 ^ 53 \<le> m then nat \<lfloor>m\<rfloor>
                      else if 0 < m \<and> m < 2 ^ 52 then nat \<lceil>2 ^ 53 / m\<rceil> else 0)"
    using big by auto
next
  fix m :: real and e :: int
  assume pos: "\<not> m \<le> 0" and "\<not> 2 ^ 53 \<le> m" and small: "m < 2 ^ 52"
  have y: "2 < 2 ^ 53 / m"
    using pos small by (simp add: less_divide_eq)
  then have c: "2 < \<lceil>2 ^ 53 / m\<rceil>"
    by (simp add: less_ceiling_iff)
  have "\<lceil>2 ^ 53 / (m * 2)\<rceil> < \<lceil>2 ^ 53 / m\<rceil>"
  proof -
    have "2 ^ 53 / (m * 2) = (2 ^ 53 / m) / 2" by simp
    also have "\<dots> \<le> of_int \<lceil>2 ^ 53 / m\<rceil> / 2"
      by (simp add: divide_right_mono)
    also have "\<dots> \<le> of_int (\<lceil>2 ^ 53 / m\<rceil> - 1)"
      using c by simp
    finally have "\<lceil>2 ^ 53 / (m * 2)\<rceil> \<le> \<lceil>2 ^ 53 / m\<rceil> - 1"
      by (simp only: ceiling_le_iff)
    then show ?thesis by simp
  qed
  with c pos small show "((m * 2, e - 1), (m, e)) \<in> measure (\<lambda>(m, e). if 2 ^ 53 \<le> m then nat \<lfloor>m\<rfloor>
                      else if 0 < m \<and> m < 2 ^ 52 then nat \<lceil>2 ^ 53 / m\<rceil> else 0)"
    by auto
qed

declare normalise.simps [simp del]

definition round_double :: "real \<Rightarrow> real" where
  "round_double x =
     (if x = 0 then 0
      else case normalise \<bar>x\<bar> 0 of
             (m, e) \<Rightarrow> sgn x * of_int (round_half_even m) * 2 powi e)"

definition double_range :: "real \<Rightarrow> bool" where
  "double_range x \<longleftrightarrow> x = 0 \<or> (1 / 2 ^ 1022 \<le> \<bar>x\<bar> \<and> \<bar>x\<bar> \<le> (2 ^ 53 - 1) * 2 ^ 971)"

text \<open>
  The float operations of the profit calculation. An \<open>int\<close> operand of a float division
  is converted to a float first. Division by zero is tested where the division is made.
\<close>

definition float_of_int :: "int \<Rightarrow> real" where
  "float_of_int n = round_double (of_int n)"

definition float_div :: "real \<Rightarrow> real \<Rightarrow> real" where
  "float_div a b = round_double (a / b)"

definition float_mul :: "real \<Rightarrow> real \<Rightarrow> real" where
  "float_mul a b = round_double (a * b)"

definition float_sub :: "real \<Rightarrow> real \<Rightarrow> real" where
  "float_sub a b = round_double (a - b)"

text \<open>
  The block under \<open># Calculate profit\<close>; only \<open>percent_profit\<close> is used afterwards.
  \<open>costs\<close> is the product of the gas limit and the fee value; \<open>round_double costs\<close> is its
  conversion to a float in \<open>costs / 1e9\<close>.
\<close>

record profit_estimate =
  rev_usd :: real
  costs_usd :: real
  profit_usd :: real
  percent_profit :: real

definition calculate_profit ::
  "int \<Rightarrow> int \<Rightarrow> real \<Rightarrow> real option \<Rightarrow> real option \<Rightarrow> error + profit_estimate" where
  "calculate_profit tips tb_reward costs p_trb_usd p_eth_usd =
     (let revenue = tb_reward + tips in
      bind_e (number p_trb_usd) (\<lambda>p_trb.
      let rev = float_mul (float_div (float_of_int revenue) (10 ^ 18)) p_trb in
      bind_e (number p_eth_usd) (\<lambda>p_eth.
      let cost = float_mul (float_div (round_double costs) (10 ^ 9)) p_eth;
          profit = float_sub rev cost
      in if cost = 0 then Inl ZeroDivisionError
         else Inr \<lparr>rev_usd = rev, costs_usd = cost, profit_usd = profit,
                   percent_profit = float_mul (float_div profit cost) 100\<rparr>)))"

text \<open>
  Every exact result of the float operations of \<open>calculate_profit\<close> is zero or within the
  normal range of doubles.
\<close>

definition estimate_in_range :: "int \<Rightarrow> int \<Rightarrow> real \<Rightarrow> real \<Rightarrow> real \<Rightarrow> bool" where
  "estimate_in_range tips tb_reward costs p_trb p_eth =
     (let revenue = float_of_int (tb_reward + tips);
          share = float_div revenue (10 ^ 18);
          rev = float_mul share p_trb;
          gas = round_double costs;
          gwei = float_div gas (10 ^ 9);
          cost = float_mul gwei p_eth;
          profit = float_sub rev cost;
          ratio = float_div profit cost
      in double_range (of_int (tb_reward + tips)) \<and> double_range (revenue / 10 ^ 18)
         \<and> double_range (share * p_trb)
         \<and> double_range costs \<and> double_range (gas / 10 ^ 9) \<and> double_range (gwei * p_eth)
         \<and> double_range (rev - cost) \<and> double_range (profit / cost)
         \<and> double_range (ratio * 100))"

text \<open>
  \<open>(self.expected_profit != "YOLO") and (percent_profit < self.expected_profit)\<close>.
\<close>

fun below_threshold :: "expected_profit \<Rightarrow> real \<Rightarrow> bool" where
  "below_threshold YOLO percent = False"
| "below_threshold (Profit threshold) percent = (percent < threshold)"

definition ensure_profitable ::
  "flashbots_reporter \<Rightarrow> profit_env \<Rightarrow> (error + response_status) \<times> flashbots_reporter" where
  "ensure_profitable self env =
     (let status = ResponseStatus;
          rewards = fst (rewards_read env);
          read_status = snd (rewards_read env)
      in if \<not> ok read_status \<or> rewards = None then
           (case error read_status of
              None \<Rightarrow> (Inl TypeError, self)
            | Some msg \<Rightarrow>
                (Inr (status\<lparr>ok := False,
                        error := Some (''Unable to retrieve queryID's current rewards:'' @ msg),
                        exc := exc read_status\<rparr>), self))
         else
           (case rewards of
              None \<Rightarrow> (Inl TypeError, self)
            | Some (tips, tb_reward) \<Rightarrow>
                (case resolve_costs self env of
                   (Inl err, self') \<Rightarrow> (Inl err, self')
                 | (Inr costs, self') \<Rightarrow>
                     (case calculate_profit tips tb_reward costs
                             (price_trb_usd env) (price_eth_usd env) of
                        Inl err \<Rightarrow> (Inl err, self')
                      | Inr est \<Rightarrow>
                          if below_threshold (expected_profit self') (percent_profit est)
                          then (Inr (status\<lparr>ok := False,
                                  error := Some ''Estimated profitability below threshold.''\<rparr>),
                                self')
                          else (Inr status, self')))))"

subsection \<open>Building and submitting the bundle: \<open>report_once\<close>\<close>

record receipt =
  blockNumber :: int
  transactionHash :: string

text \<open>
  The fee entries of the transaction dictionary. \<open>Web3.toWei(x, "gwei")\<close> is a library
  conversion; the entry keeps its argument \<open>x\<close>.
\<close>

datatype fee_fields =
    GasPrice real
  | MaxFees real real

text \<open>
  The call \<open>submitValue(_queryId, _value, _nonce, _queryData)\<close> together with the
  dictionary given to \<open>buildTransaction\<close>. Signing is a constructor: a signed transaction
  is determined by the transaction that was signed.
\<close>

record submit_value_tx =
  arg_queryId :: string
  arg_value :: string
  arg_nonce :: "int option"
  arg_queryData :: string
  tx_nonce :: int
  tx_gas :: int
  tx_fees :: fee_fields
  tx_chainId :: int

datatype signed_transaction = Signed submit_value_tx

type_synonym tx_bundle = "signed_transaction list"

text \<open>
  The private relay as seen by the reporter: the bundles handed to \<open>send_bundle\<close> with
  their target block numbers, in order, and the target blocks of the pending bundles on
  which \<open>wait()\<close> and \<open>receipts()\<close> were called. A pending bundle is identified by its
  bundle and target.
\<close>

record relay =
  sent :: "(tx_bundle \<times> int) list"
  waited :: "int list"
  receipts_read :: "int list"

type_synonym pending = "tx_bundle \<times> int"

text \<open>
  What one call of \<open>report_once\<close> reads from outside, besides the inputs of
  \<open>ensure_profitable\<close>: the status of \<open>check_reporter_lock\<close> (a method of the base
  reporter), the latest value of the datafeed's source and its text in the log message,
  the outcome of \<open>value_type.encode\<close>, the query's id and data, the result of
  \<open>oracle.read("getTimestampCountById")\<close>, the account's transaction count, the current
  block number, and for each target block the outcome of \<open>receipts()\<close> on the bundle
  sent for that block.
\<close>

record report_env =
  lock_status :: response_status
  profit_inputs :: profit_env
  latest_data :: "real option"
  latest_data_text :: string
  encoded :: "error + string"
  query_id :: string
  query_data :: string
  timestamp_count_read :: "int option \<times> response_status"
  transaction_count :: int
  block_number :: int
  bundle_receipts :: "int \<Rightarrow> error + receipt list"

text \<open>
  \<open>for target_block in [block + k for k in [1, 2, 3, 4, 5]]:
  results.append(send_bundle(bundle, target_block_number=target_block))\<close>.
\<close>

fun send_bundles ::
  "tx_bundle \<Rightarrow> int list \<Rightarrow> pending list \<Rightarrow> relay \<Rightarrow> pending list \<times> relay" where
  "send_bundles b [] results rl = (results, rl)"
| "send_bundles b (target_block # rest) results rl =
     send_bundles b rest (results @ [(b, target_block)])
       (rl\<lparr>sent := sent rl @ [(b, target_block)]\<rparr>)"

text \<open>\<open>xs[-1]\<close> and \<open>xs[0]\<close>: both raise \<open>IndexError\<close> on an empty list.\<close>

definition last_item :: "'a list \<Rightarrow> error + 'a" where
  "last_item xs = (case rev xs of [] \<Rightarrow> Inl IndexError | x # rest \<Rightarrow> Inr x)"

definition first_item :: "'a list \<Rightarrow> error + 'a" where
  "first_item xs = (case xs of [] \<Rightarrow> Inl IndexError | x # rest \<Rightarrow> Inr x)"

text \<open>The fee entries chosen by \<open>transaction_type\<close>.\<close>

definition build_fees :: "flashbots_reporter \<Rightarrow> error + fee_fields" where
  "build_fees self =
     (if transaction_type self = 2 then
        bind_e (number (max_fee self)) (\<lambda>m.
        bind_e (number (priority_fee self)) (\<lambda>p. Inr (MaxFees m p)))
      else bind_e (number (legacy_gas_price self)) (\<lambda>g. Inr (GasPrice g)))"

text \<open>
  From \<open># Send bundle to be executed in the next block\<close> to the end of \<open>report_once\<close>.
  Only \<open>TransactionNotFound\<close> is caught by the \<open>try\<close>; the status returned from the
  handler is the \<open>ResponseStatus()\<close> created before, with \<open>error\<close> and \<open>e\<close> assigned.
\<close>

definition submit_bundle ::
  "flashbots_reporter \<Rightarrow> report_env \<Rightarrow> relay \<Rightarrow> response_status \<Rightarrow> tx_bundle
     \<Rightarrow> (error + receipt option \<times> response_status) \<times> flashbots_reporter \<times> relay" where
  "submit_bundle self env rl status b =
     (let block = block_number env;
          (results, rl1) = send_bundles b (map (\<lambda>k. block + k) [1, 2, 3, 4, 5]) [] rl
      in case last_item results of
           Inl err \<Rightarrow> (Inl err, self, rl1)
         | Inr result \<Rightarrow>
             (let rl2 = rl1\<lparr>waited := waited rl1 @ [snd result],
                             receipts_read := receipts_read rl1 @ [snd result]\<rparr>
              in case bind_e (bundle_receipts env (snd result)) first_item of
                   Inl (TransactionNotFound msg) \<Rightarrow>
                     (Inr (None, status\<lparr>error := Some (''Bundle was not executed: '' @ msg),
                                        exc := Some (TransactionNotFound msg)\<rparr>), self, rl2)
                 | Inl err \<Rightarrow> (Inl err, self, rl2)
                 | Inr tx_receipt \<Rightarrow>
                     (let status' = ResponseStatus
                      in if ok status' \<and> error status' = None
                         then (Inr (Some tx_receipt, status'),
                               self\<lparr>last_submission_timestamp := 0\<rparr>, rl2)
                         else (Inr (Some tx_receipt, status'), self, rl2))))"

definition report_once ::
  "flashbots_reporter \<Rightarrow> report_env \<Rightarrow> relay
     \<Rightarrow> (error + receipt option \<times> response_status) \<times> flashbots_reporter \<times> relay" where
  "report_once self env rl =
     (if \<not> ok (lock_status env) then (Inr (None, lock_status env), self, rl)
      else case ensure_profitable self (profit_inputs env) of
        (Inl err, self1) \<Rightarrow> (Inl err, self1, rl)
      | (Inr profit_status, self1) \<Rightarrow>
          if \<not> ok profit_status then (Inr (None, profit_status), self1, rl)
          else
            (let status = ResponseStatus in
             if latest_data env = None then
               (Inr (None, error_status ''Unable to retrieve updated datafeed value.'' None),
                self1, rl)
             else case encoded env of
               Inl err \<Rightarrow>
                 (Inr (None, error_status
                         (''Error encoding response value '' @ latest_data_text env) (Some err)),
                  self1, rl)
             | Inr v \<Rightarrow>
                 (let timestamp_count = fst (timestamp_count_read env);
                      read_status = snd (timestamp_count_read env)
                  in if \<not> ok read_status then
                       (case error read_status of
                          None \<Rightarrow> (Inl TypeError, self1, rl)
                        | Some msg \<Rightarrow>
                            (Inr (None, status\<lparr>error :=
                                       Some (''Unable to retrieve timestampCount: '' @ msg),
                                     exc := exc read_status\<rparr>), self1, rl))
                     else case build_fees self1 of
                       Inl err \<Rightarrow> (Inl err, self1, rl)
                     | Inr fees \<Rightarrow>
                         submit_bundle self1 env rl status
                           [Signed \<lparr>arg_queryId = query_id env, arg_value = v,
                              arg_nonce = timestamp_count, arg_queryData = query_data env,
                              tx_nonce = transaction_count env, tx_gas = gas_limit self1,
                              tx_fees = fees, tx_chainId = chain_id self1\<rparr>])))"

text \<open>\<open>FlashbotsReporter.report\<close>: \<open>while True: report_once(); sleep(7)\<close>.\<close>

fun flashbots_report ::
  "flashbots_reporter \<Rightarrow> report_env list \<Rightarrow> relay \<Rightarrow> int list
     \<Rightarrow> (loop_outcome \<times> int list) \<times> flashbots_reporter \<times> relay" where
  "flashbots_report self [] rl slept = ((Running, slept), self, rl)"
| "flashbots_report self (env # envs) rl slept =
     (case report_once self env rl of
        (Inl err, self', rl') \<Rightarrow> ((Crashed err, slept), self', rl')
      | (Inr res, self', rl') \<Rightarrow> flashbots_report self' envs rl' (slept @ [7]))"

section \<open>Example inputs\<close>

text \<open>
  Concrete reporters and environments at which the theorems below are instantiated. The
  legacy reporter and its environment are the worked example of profitability estimation:
  gas limit 350000, legacy gas price 50, no tips, a time-based reward of \<open>10^18\<close>, a
  reward-token price of 1 USD and a gas-asset price of 2000 USD. At the rounding example
  (legacy gas price 11, reward \<open>693 * 10^15\<close>, prices 20 and 1800, threshold 100) the
  percent profit is 100 in exact arithmetic and just below 100 in doubles.
\<close>

definition backup_reporter :: conditional_reporter where
  "backup_reporter = \<lparr>datafeed = Some ''eth-usd-spot'', stale_timeout = 3600,
     max_price_change = 1 / 2, wait_period = 7\<rparr>"

definition failed_read_cycle :: cond_cycle where
  "failed_read_cycle = \<lparr>is_online = True, has_native_token = True,
     tellor_read = (None, \<lparr>ok = False, error = Some ''connection refused'', exc = None\<rparr>),
     current_time = 1700000000, base_report_once = Inr ()\<rparr>"

definition legacy_reporter :: flashbots_reporter where
  "legacy_reporter = \<lparr>expected_profit = Profit 100, transaction_type = 0, gas_limit = 350000,
     max_fee = None, priority_fee = Some 5, legacy_gas_price = Some 50, chain_id = 1,
     last_submission_timestamp = 1650000000\<rparr>"

definition legacy_env :: profit_env where
  "legacy_env = \<lparr>rewards_read = (Some (0, 10 ^ 18), ResponseStatus),
     price_eth_usd = Some 2000, price_trb_usd = Some 1, fee_info = None, gas_station = None\<rparr>"

definition rounding_reporter :: flashbots_reporter where
  "rounding_reporter = \<lparr>expected_profit = Profit 100, transaction_type = 0, gas_limit = 350000,
     max_fee = None, priority_fee = Some 5, legacy_gas_price = Some 11, chain_id = 1,
     last_submission_timestamp = 1650000000\<rparr>"

definition rounding_env :: profit_env where
  "rounding_env = \<lparr>rewards_read = (Some (0, 693000000000000000), ResponseStatus),
     price_eth_usd = Some 1800, price_trb_usd = Some 20, fee_info = None,
     gas_station = None\<rparr>"

definition eip1559_reporter :: flashbots_reporter where
  "eip1559_reporter = \<lparr>expected_profit = YOLO, transaction_type = 2, gas_limit = 350000,
     max_fee = None, priority_fee = None, legacy_gas_price = None, chain_id = 1,
     last_submission_timestamp = 1650000000\<rparr>"

definition eip1559_env :: profit_env where
  "eip1559_env = \<lparr>rewards_read = (Some (5 * 10 ^ 18, 10 ^ 18), ResponseStatus),
     price_eth_usd = Some 2000, price_trb_usd = Some 20,
     fee_info = Some \<lparr>suggestBaseFee = 20, SafeGasPrice = 3\<rparr>, gas_station = None\<rparr>"

definition example_env :: report_env where
  "example_env = \<lparr>lock_status = ResponseStatus, profit_inputs = eip1559_env,
     latest_data = Some 3000, latest_data_text = ''3000.0'', encoded = Inr ''0xa2a15d09519be00000'',
     query_id = ''0x83a7f3d4'', query_data = ''SpotPrice(eth,usd)'',
     timestamp_count_read = (Some 7, ResponseStatus), transaction_count = 12,
     block_number = 15000000,
     bundle_receipts = (\<lambda>target. Inl (TransactionNotFound ''0xab not found''))\<rparr>"

definition idle_relay :: relay where
  "idle_relay = \<lparr>sent = [], waited = [], receipts_read = []\<rparr>"

section \<open>Properties of \<open>filter_batch_result\<close>\<close>

lemma map_fst_dd_append:
  "map fst (dd_append k x m) = (if k \<in> fst ` set m then map fst m else map fst m @ [k])"
proof (induction m)
  case Nil
  show ?case by simp
next
  case (Cons a m)
  obtain k' xs where a: "a = (k', xs)" by (cases a)
  show ?case using Cons.IH by (auto simp: a)
qed

lemma map_of_dd_append:
  "map_of (dd_append k x m) =
     (map_of m)(k \<mapsto> (case map_of m k of None \<Rightarrow> [x] | Some xs \<Rightarrow> xs @ [x]))"
  by (induction m) (auto simp: fun_eq_iff)

lemma total_values_dd_append: "total_values (dd_append k x m) = Suc (total_values m)"
  by (induction m) (auto simp: total_values_def)

lemma mset_concat_dd_append:
  "mset (concat (map snd (dd_append k x m))) = add_mset x (mset (concat (map snd m)))"
  by (induction m) auto

lemma dd_append_nonempty:
  "[] \<notin> snd ` set m \<Longrightarrow> [] \<notin> snd ` set (dd_append k x m)"
  by (induction m) (force split: if_splits)+

lemma distinct_dd_append:
  "distinct (map fst m) \<Longrightarrow> distinct (map fst (dd_append k x m))"
  by (simp add: map_fst_dd_append)

lemma group_keys_distinct:
  "distinct (map fst m) \<Longrightarrow> distinct (map fst (group_keys ks m))"
  by (induction ks arbitrary: m) (auto simp: distinct_dd_append simp del: dd_append.simps)

lemma group_keys_nonempty:
  "[] \<notin> snd ` set m \<Longrightarrow> [] \<notin> snd ` set (group_keys ks m)"
  by (induction ks arbitrary: m) (simp_all add: dd_append_nonempty)

lemma group_keys_total: "total_values (group_keys ks m) = total_values m + length ks"
  by (induction ks arbitrary: m) (auto simp: total_values_dd_append)

lemma group_keys_map_of:
  "map_of (group_keys ks m) q =
     (case map_of m q of
        None \<Rightarrow> (if q \<in> snd ` set ks then Some (filter (\<lambda>k. snd k = q) ks) else None)
      | Some xs \<Rightarrow> Some (xs @ filter (\<lambda>k. snd k = q) ks))"
proof (induction ks arbitrary: m)
  case Nil
  then show ?case by (simp split: option.splits)
next
  case (Cons k ks)
  show ?case
    by (auto simp: Cons.IH map_of_dd_append split: option.splits)
qed

lemma group_keys_keys:
  "fst ` set (group_keys ks m) = fst ` set m \<union> snd ` set ks"
proof (induction ks arbitrary: m)
  case Nil
  show ?case by simp
next
  case (Cons k ks)
  have "fst ` set (dd_append (snd k) k m) = insert (snd k) (fst ` set m)"
    using map_fst_dd_append [of "snd k" k m]
    by (metis (no_types, lifting) Un_insert_right append_Nil2 insert_absorb list.set_map list.simps(15) set_append)
  then show ?case by (simp add: Cons.IH)
qed

lemma group_keys_mset:
  "mset (concat (map snd (group_keys ks m))) = mset ks + mset (concat (map snd m))"
  by (induction ks arbitrary: m) (simp_all add: mset_concat_dd_append)

lemma dd_append_fresh:
  "q \<notin> fst ` set results \<Longrightarrow> dd_append q v results = results @ [(q, [v])]"
  by (induction results) auto

lemma dd_append_last:
  "q \<notin> fst ` set results \<Longrightarrow>
   dd_append q v (results @ [(q, xs)]) = results @ [(q, xs @ [v])]"
  by (induction results) auto

lemma collect_values_last:
  "set vals \<subseteq> fst ` set data \<Longrightarrow> q \<notin> fst ` set results \<Longrightarrow>
   collect_values data q vals (results @ [(q, xs)]) =
     Inr (results @ [(q, xs @ map (\<lambda>k. the (map_of data k)) vals)])"
proof (induction vals arbitrary: xs)
  case Nil
  show ?case by simp
next
  case (Cons val vals)
  from Cons.prems obtain v where v: "map_of data val = Some v"
    by (cases "map_of data val") (auto simp: map_of_eq_None_iff)
  show ?case
    using Cons.prems Cons.IH [of "xs @ [v]"] by (simp add: v dd_append_last)
qed

lemma collect_values_fresh:
  assumes "set vals \<subseteq> fst ` set data" "q \<notin> fst ` set results" "vals \<noteq> []"
  shows "collect_values data q vals results =
     Inr (results @ [(q, map (\<lambda>k. the (map_of data k)) vals)])"
proof -
  from assms(3) obtain val rest where vals: "vals = val # rest" by (cases vals) auto
  from assms(1) vals obtain v where v: "map_of data val = Some v"
    by (cases "map_of data val") (auto simp: map_of_eq_None_iff)
  have "set rest \<subseteq> fst ` set data" using assms(1) vals by simp
  from collect_values_last [OF this assms(2), of "[v]"]
  show ?thesis by (simp add: vals v dd_append_fresh [OF assms(2)])
qed

lemma collect_all_fresh:
  "distinct (map fst m) \<Longrightarrow> fst ` set m \<inter> fst ` set results = {} \<Longrightarrow>
   [] \<notin> snd ` set m \<Longrightarrow> set (concat (map snd m)) \<subseteq> fst ` set data \<Longrightarrow>
   collect_all data m results =
     Inr (results @ map (\<lambda>qv. (fst qv, map (\<lambda>k. the (map_of data k)) (snd qv))) m)"
proof (induction m arbitrary: results)
  case Nil
  show ?case by simp
next
  case (Cons a m)
  obtain q vals where a: "a = (q, vals)" by (cases a)
  let ?r = "results @ [(q, map (\<lambda>k. the (map_of data k)) vals)]"
  have cv: "collect_values data q vals results = Inr ?r"
    using Cons.prems by (intro collect_values_fresh) (auto simp: a)
  have "collect_all data m ?r =
     Inr (?r @ map (\<lambda>qv. (fst qv, map (\<lambda>k. the (map_of data k)) (snd qv))) m)"
    using Cons.prems by (intro Cons.IH) (auto simp: a)
  then show ?case by (simp add: a cv)
qed

lemma lookup_distinct:
  "distinct (map fst data) \<Longrightarrow> kv \<in> set data \<Longrightarrow> the (map_of data (fst kv)) = snd kv"
  by (cases kv) simp

lemma map_filter_keys:
  "(\<And>kv. kv \<in> set xs \<Longrightarrow> f (fst kv) = snd kv) \<Longrightarrow>
   map f (filter P (map fst xs)) = map snd (filter (\<lambda>kv. P (fst kv)) xs)"
  by (induction xs) auto

lemma map_of_map_values:
  "map_of (map (\<lambda>qv. (fst qv, g (snd qv))) m) q = map_option g (map_of m q)"
  by (induction m) auto

text \<open>
  Claim C10. For a dictionary whose keys are pairs, \<open>filter_batch_result\<close> returns
  normally; the result has one entry for each distinct second key component \<open>q\<close>, and
  that entry is the list of the values \<open>data[k]\<close> of the keys \<open>k\<close> with \<open>k[1] = q\<close>, in the
  insertion order of the input. Every input value occurs in the output lists exactly as often
  as in the input, so the output holds as many values as the input has entries.
\<close>

theorem filter_batch_result_groups:
  assumes "distinct (map fst data)"
  shows "\<exists>results. filter_batch_result data = Inr results
     \<and> distinct (map fst results)
     \<and> fst ` set results = snd ` fst ` set data
     \<and> (\<forall>q \<in> snd ` fst ` set data.
           map_of results q = Some (map snd (filter (\<lambda>kv. snd (fst kv) = q) data)))
     \<and> mset (concat (map snd results)) = mset (map snd data)
     \<and> total_values results = length data"
proof -
  let ?f = "\<lambda>k. the (map_of data k)"
  let ?m = "group_keys (map fst data) []"
  let ?r = "map (\<lambda>qv. (fst qv, map ?f (snd qv))) ?m"
  have f: "?f (fst kv) = snd kv" if "kv \<in> set data" for kv
    using assms that by (rule lookup_distinct)
  have keys: "set (concat (map snd ?m)) \<subseteq> fst ` set data"
    using group_keys_mset [of "map fst data" "[]"]
    by (metis add.right_neutral concat.simps(1) list.map(1) list.set_map mset.simps(1) mset_eq_setD order_refl)
  have "collect_all data ?m [] = Inr ([] @ ?r)"
  proof (rule collect_all_fresh)
    show "distinct (map fst ?m)" by (simp add: group_keys_distinct)
    show "fst ` set ?m \<inter> fst ` set [] = {}" by simp
    show "[] \<notin> snd ` set ?m" by (simp add: group_keys_nonempty)
    show "set (concat (map snd ?m)) \<subseteq> fst ` set data" by (rule keys)
  qed
  then have run: "filter_batch_result data = Inr ?r"
    by (simp add: filter_batch_result_def)
  have fst_r: "map fst ?r = map fst ?m" by simp
  have d: "distinct (map fst ?r)"
    unfolding fst_r by (simp add: group_keys_distinct)
  have k: "fst ` set ?r = snd ` fst ` set data"
    using group_keys_keys [of "map fst data" "[]"] by (simp add: image_image)
  have v: "map_of ?r q = Some (map snd (filter (\<lambda>kv. snd (fst kv) = q) data))"
    if "q \<in> snd ` fst ` set data" for q
  proof -
    have "map_of ?m q = Some (filter (\<lambda>k. snd k = q) (map fst data))"
      using that by (simp add: group_keys_map_of)
    then have "map_of ?r q = Some (map ?f (filter (\<lambda>k. snd k = q) (map fst data)))"
      by (simp add: map_of_map_values)
    also have "map ?f (filter (\<lambda>k. snd k = q) (map fst data)) =
        map snd (filter (\<lambda>kv. snd (fst kv) = q) data)"
      by (rule map_filter_keys) (rule f)
    finally show ?thesis .
  qed
  have c: "concat (map snd ?r) = map ?f (concat (map snd ?m))"
    by (simp add: map_concat comp_def)
  have m1: "mset (concat (map snd ?m)) = mset (map fst data)"
    by (simp add: group_keys_mset)
  have m2: "map ?f (map fst data) = map snd data"
    using f by simp
  have "mset (map ?f (concat (map snd ?m))) = mset (map ?f (map fst data))"
    using m1 by (metis mset_map)
  then have ms: "mset (concat (map snd ?r)) = mset (map snd data)"
    unfolding c m2 .
  have t0: "total_values ?m = length data"
    using group_keys_total [of "map fst data" "[]"] by (simp add: total_values_def)
  have "total_values ?r = total_values ?m"
    by (simp add: total_values_def comp_def)
  with t0 have t: "total_values ?r = length data"
    by (simp only:)
  from run d k v ms t show ?thesis by blast
qed

theorem filter_batch_result_groups_witness:
  "distinct (map fst [((0::nat, 1::nat), 10::nat), ((0, 2), 20), ((1, 1), 30)])
   \<and> (\<exists>results. filter_batch_result [((0::nat, 1::nat), 10::nat), ((0, 2), 20), ((1, 1), 30)]
          = Inr results
     \<and> distinct (map fst results)
     \<and> fst ` set results = snd ` fst ` set [((0::nat, 1::nat), 10::nat), ((0, 2), 20), ((1, 1), 30)]
     \<and> (\<forall>q \<in> snd ` fst ` set [((0::nat, 1::nat), 10::nat), ((0, 2), 20), ((1, 1), 30)].
           map_of results q = Some (map snd (filter (\<lambda>kv. snd (fst kv) = q)
             [((0::nat, 1::nat), 10::nat), ((0, 2), 20), ((1, 1), 30)])))
     \<and> mset (concat (map snd results))
         = mset (map snd [((0::nat, 1::nat), 10::nat), ((0, 2), 20), ((1, 1), 30)])
     \<and> total_values results = length [((0::nat, 1::nat), 10::nat), ((0, 2), 20), ((1, 1), 30)])"
proof -
  have h: "distinct (map fst [((0::nat, 1::nat), 10::nat), ((0, 2), 20), ((1, 1), 30)])"
    by simp
  from filter_batch_result_groups [OF h] h show ?thesis
    by (intro conjI) assumption+
qed

text \<open>The example of the docstring, and one with two query ids, evaluated.\<close>

lemma filter_batch_result_docstring:
  "filter_batch_result
     [((''current_value'', ''queryid''), 0::int), ((''current_timestamp'', ''queryid''), 123)]
   = Inr [(''queryid'', [0, 123])]"
  by (simp add: filter_batch_result_def)

lemma filter_batch_result_two_ids:
  "filter_batch_result [((0::nat, 1::nat), 10::nat), ((0, 2), 20), ((1, 1), 30)]
   = Inr [(1, [10, 30]), (2, [20])]"
  by (simp add: filter_batch_result_def)

section \<open>Properties of the backup reporter\<close>

lemma conditions_met_no_datafeed:
  "datafeed self = None \<Longrightarrow> conditions_met self read_result time = Inr False"
  by (simp add: conditions_met_def)

lemma conditions_met_no_record:
  "datafeed self \<noteq> None \<Longrightarrow> \<not> ok status \<Longrightarrow>
   conditions_met self (data, status) time = Inl AttributeError"
  by (simp add: conditions_met_def get_tellor_latest_data_def bind_e_def attr_def)

lemma conditions_met_record:
  "datafeed self \<noteq> None \<Longrightarrow> ok status \<Longrightarrow>
   conditions_met self (Some (r, v, t), status) time =
     Inr (\<not> r \<or> time - t > stale_timeout self)"
  by (simp add: conditions_met_def get_tellor_latest_data_def bind_e_def attr_def)

text \<open>
  Claim C1. With a configured datafeed, \<open>conditions_met\<close> is claimed to return true when no
  prior on-chain record exists (the oracle read yields no data), true when the record has
  \<open>retrieved = false\<close>, true when \<open>now - timestampRetrieved > stale_timeout\<close>, and false
  otherwise. The rows for an existing record hold (\<open>conditions_met_record\<close>). In the first
  row the code does not return: when the read of \<open>getDataBefore\<close> fails,
  \<open>get_tellor_latest_data\<close> yields \<open>None\<close> and the assignment
  \<open>tellor_value = tellor_data.value\<close> raises \<open>AttributeError\<close> before the test
  \<open>tellor_data is None\<close> is reached.
\<close>

theorem conditions_met_read_failure:
  "conditions_met backup_reporter
     (None, \<lparr>ok = False, error = Some ''connection refused'', exc = None\<rparr>) 1700000000
   = Inl AttributeError"
  by (simp add: backup_reporter_def conditions_met_def get_tellor_latest_data_def
      bind_e_def attr_def)

theorem conditions_met_read_failure_witness:
  "conditions_met backup_reporter
     (None, \<lparr>ok = False, error = Some ''connection refused'', exc = None\<rparr>) 1700000000
   \<noteq> Inr True"
  using conditions_met_read_failure by simp

lemma cond_cycle_body_sleeps:
  assumes "\<not> is_online c \<or> \<not> has_native_token c
     \<or> conditions_met self (tellor_read c) (current_time c) = Inr False
     \<or> (conditions_met self (tellor_read c) (current_time c) = Inr True
          \<and> base_report_once c = Inr ())"
  shows "cond_cycle_body self c = Inr ()"
  using assms by (auto simp: cond_cycle_body_def bind_e_def)

lemma cond_report_all_cycles_sleep:
  "(\<And>c. c \<in> set cs \<Longrightarrow> cond_cycle_body self c = Inr ()) \<Longrightarrow>
   cond_report self None cs slept = (Running, slept @ replicate (length cs) (wait_period self))"
proof (induction cs arbitrary: slept)
  case Nil
  show ?case by (simp add: keep_reporting_def)
next
  case (Cons c cs)
  have "cond_cycle_body self c = Inr ()"
    using Cons.prems by simp
  moreover have "cond_report self None cs (slept @ [wait_period self]) =
      (Running, (slept @ [wait_period self]) @ replicate (length cs) (wait_period self))"
    using Cons.prems by (intro Cons.IH) simp
  ultimately show ?case
    by (simp add: keep_reporting_def replicate_app_Cons_same)
qed

text \<open>
  Claim C2. Every cycle in which one sub-step fails (condition check false, profitability
  below threshold, node offline, oracle read error, submission error) is claimed to reach
  the sleep and to leave the loop running. Cycles whose failing step returns a value do
  (\<open>cond_cycle_body_sleeps\<close>, \<open>cond_report_all_cycles_sleep\<close>). A cycle of
  \<open>ConditionalReporter.report\<close> in which the oracle read fails does not: the exception of
  \<open>conditions_met\<close> leaves the \<open>while\<close> loop, which has no handler, before the sleep.
\<close>

theorem cond_report_read_failure:
  "cond_report backup_reporter None [failed_read_cycle] [] = (Crashed AttributeError, [])"
  by (simp add: backup_reporter_def failed_read_cycle_def keep_reporting_def
      cond_cycle_body_def conditions_met_def get_tellor_latest_data_def bind_e_def attr_def)

theorem cond_report_read_failure_witness:
  "snd (cond_report backup_reporter None [failed_read_cycle] []) = []
   \<and> fst (cond_report backup_reporter None [failed_read_cycle] []) \<noteq> Running"
  using cond_report_read_failure by simp

section \<open>Properties of the float rounding\<close>

lemma normalise_double: "0 < m \<Longrightarrow> normalise (m * 2) (e - 1) = normalise m e"
proof (cases "m < 2 ^ 52")
  case True
  assume "0 < m"
  with True show ?thesis
    by (subst (2) normalise.simps) simp
next
  case False
  assume "0 < m"
  with False show ?thesis
    by (subst normalise.simps) simp
qed

lemma normalise_halve: "0 < m \<Longrightarrow> normalise (m / 2) (e + 1) = normalise m e"
proof (cases "2 ^ 53 \<le> m")
  case True
  assume "0 < m"
  with True show ?thesis
    by (subst (2) normalise.simps) simp
next
  case False
  assume "0 < m"
  with False show ?thesis
    by (subst normalise.simps) simp
qed

lemma normalise_scaled_up:
  "0 < m \<Longrightarrow> normalise (m * 2 ^ n) (e - int n) = normalise m e"
proof (induction n arbitrary: e)
  case 0
  show ?case by simp
next
  case (Suc n)
  have "normalise (m * 2 ^ n * 2) (e - int n - 1) = normalise (m * 2 ^ n) (e - int n)"
    using Suc.prems by (intro normalise_double) simp
  with Suc show ?case
    by (simp add: algebra_simps)
qed

lemma normalise_scaled_down:
  "0 < m \<Longrightarrow> normalise (m / 2 ^ n) (e + int n) = normalise m e"
proof (induction n arbitrary: e)
  case 0
  show ?case by simp
next
  case (Suc n)
  have "normalise (m / 2 ^ n / 2) (e + int n + 1) = normalise (m / 2 ^ n) (e + int n)"
    using Suc.prems by (intro normalise_halve) simp
  with Suc show ?case
    by (simp add: algebra_simps)
qed

lemma normalise_normal: "2 ^ 52 \<le> m \<Longrightarrow> m < 2 ^ 53 \<Longrightarrow> normalise m e = (m, e)"
  by (subst normalise.simps) simp

lemma normalise_range:
  "0 < m \<Longrightarrow> 2 ^ 52 \<le> fst (normalise m e) \<and> fst (normalise m e) < 2 ^ 53"
proof (induction m e rule: normalise.induct)
  case (1 m e)
  show ?case
  proof (cases "2 ^ 53 \<le> m")
    case True
    with 1 show ?thesis
      by (subst (1 2) normalise.simps) simp
  next
    case False
    show ?thesis
    proof (cases "m < 2 ^ 52")
      case True
      with False 1 show ?thesis
        by (subst (1 2) normalise.simps) simp
    next
      case False
      with \<open>\<not> 2 ^ 53 \<le> m\<close> 1 show ?thesis
        by (subst (1 2) normalise.simps) simp
    qed
  qed
qed

lemma round_half_even_floor: "\<lfloor>x\<rfloor> \<le> round_half_even x"
  by (simp add: round_half_even_def Let_def)

lemma round_half_even_int: "round_half_even (of_int k) = k"
  by (simp add: round_half_even_def)

lemma round_double_zero_iff: "round_double x = 0 \<longleftrightarrow> x = 0"
proof (cases "x = 0")
  case True
  then show ?thesis by (simp add: round_double_def)
next
  case False
  obtain m e where n: "normalise \<bar>x\<bar> 0 = (m, e)" by (cases "normalise \<bar>x\<bar> 0")
  from False have "2 ^ 52 \<le> m"
    using normalise_range [of "\<bar>x\<bar>" 0] n by simp
  then have "(2::int) ^ 52 \<le> \<lfloor>m\<rfloor>"
    by (simp add: le_floor_iff)
  moreover have "(0::int) < 2 ^ 52"
    by simp
  ultimately have "0 < round_half_even m"
    using round_half_even_floor [of m] by linarith
  with False n show ?thesis
    by (simp add: round_double_def sgn_if)
qed

lemma round_double_small:
  assumes "2 ^ 52 \<le> \<bar>x\<bar> * 2 ^ n" and "\<bar>x\<bar> * 2 ^ n < 2 ^ 53"
  shows "round_double x = sgn x * of_int (round_half_even (\<bar>x\<bar> * 2 ^ n)) / 2 ^ n"
proof -
  from assms(1) have nz: "x \<noteq> 0" by auto
  then have "normalise \<bar>x\<bar> 0 = normalise (\<bar>x\<bar> * 2 ^ n) (0 - int n)"
    using normalise_scaled_up [of "\<bar>x\<bar>" n 0] by simp
  also have "\<dots> = (\<bar>x\<bar> * 2 ^ n, - int n)"
    using assms by (simp add: normalise_normal)
  finally show ?thesis
    using nz by (simp add: round_double_def power_int_minus field_simps)
qed

lemma round_double_large:
  assumes "2 ^ 52 \<le> \<bar>x\<bar> / 2 ^ n" and "\<bar>x\<bar> / 2 ^ n < 2 ^ 53"
  shows "round_double x = sgn x * of_int (round_half_even (\<bar>x\<bar> / 2 ^ n)) * 2 ^ n"
proof -
  from assms(1) have nz: "x \<noteq> 0" by auto
  then have "normalise \<bar>x\<bar> 0 = normalise (\<bar>x\<bar> / 2 ^ n) (0 + int n)"
    using normalise_scaled_down [of "\<bar>x\<bar>" n 0] by simp
  also have "\<dots> = (\<bar>x\<bar> / 2 ^ n, int n)"
    using assms by (simp add: normalise_normal)
  finally show ?thesis
    using nz by (simp add: round_double_def)
qed


lemma cost_zero_iff:
  "float_mul (float_div (round_double costs) (10 ^ 9)) p_eth = 0 \<longleftrightarrow> costs / 10 ^ 9 * p_eth = 0"
  by (simp add: float_mul_def float_div_def round_double_zero_iff)

text \<open>The float operations of the worked example, one rounding at a time.\<close>

lemma legacy_float_values:
  shows "float_of_int (10 ^ 18 + 0) = 10 ^ 18"
    and "float_div (10 ^ 18) (10 ^ 18) = 1"
    and "float_mul 1 1 = 1"
    and "round_double 17500000 = 17500000"
    and "float_div 17500000 (10 ^ 9) = 1261007895663739 / 2 ^ 56"
    and "float_mul (1261007895663739 / 2 ^ 56) 2000 = 35"
    and "float_sub 1 35 = - 34"
    and "float_div (- 34) 35 = - (8749850704605535 / 2 ^ 53)"
    and "float_mul (- (8749850704605535 / 2 ^ 53)) 100 = - (3417910431486537 / 2 ^ 45)"
proof -
  show "float_of_int (10 ^ 18 + 0) = 10 ^ 18"
    unfolding float_of_int_def
    by (subst round_double_large [where n = 7]) (simp_all add: round_half_even_def)
  show "float_div (10 ^ 18) (10 ^ 18) = 1"
    unfolding float_div_def
    by (subst round_double_small [where n = 52]) (simp_all add: round_half_even_def)
  show "float_mul 1 1 = 1"
    unfolding float_mul_def
    by (subst round_double_small [where n = 52]) (simp_all add: round_half_even_def)
  show "round_double 17500000 = 17500000"
    by (subst round_double_small [where n = 28]) (simp_all add: round_half_even_def)
  show "float_div 17500000 (10 ^ 9) = 1261007895663739 / 2 ^ 56"
    unfolding float_div_def
    by (subst round_double_small [where n = 58]) (simp_all add: round_half_even_def)
  show "float_mul (1261007895663739 / 2 ^ 56) 2000 = 35"
    unfolding float_mul_def
    by (subst round_double_small [where n = 47]) (simp_all add: round_half_even_def)
  show "float_sub 1 35 = - 34"
    unfolding float_sub_def
    by (subst round_double_small [where n = 47]) (simp_all add: round_half_even_def)
  show "float_div (- 34) 35 = - (8749850704605535 / 2 ^ 53)"
    unfolding float_div_def
    by (subst round_double_small [where n = 53]) (simp_all add: round_half_even_def)
  show "float_mul (- (8749850704605535 / 2 ^ 53)) 100 = - (3417910431486537 / 2 ^ 45)"
    unfolding float_mul_def
    by (subst round_double_small [where n = 46]) (simp_all add: round_half_even_def)
qed

text \<open>The same for the rounding example.\<close>

lemma rounding_float_values:
  shows "float_of_int (693000000000000000 + 0) = 693000000000000000"
    and "float_div 693000000000000000 (10 ^ 18) = 6241989083535507 / 2 ^ 53"
    and "float_mul (6241989083535507 / 2 ^ 53) 20 = 975310794302423 / 2 ^ 46"
    and "round_double 3850000 = 3850000"
    and "float_div 3850000 (10 ^ 9) = 4438747792736361 / 2 ^ 60"
    and "float_mul (4438747792736361 / 2 ^ 60) 1800 = 7802486354419385 / 2 ^ 50"
    and "float_sub (975310794302423 / 2 ^ 46) (7802486354419385 / 2 ^ 50)
           = 7802486354419383 / 2 ^ 50"
    and "float_div (7802486354419383 / 2 ^ 50) (7802486354419385 / 2 ^ 50)
           = 4503599627370495 / 2 ^ 52"
    and "float_mul (4503599627370495 / 2 ^ 52) 100 = 3518437208883199 / 2 ^ 45"
proof -
  show "float_of_int (693000000000000000 + 0) = 693000000000000000"
    unfolding float_of_int_def
    by (subst round_double_large [where n = 7]) (simp_all add: round_half_even_def)
  show "float_div 693000000000000000 (10 ^ 18) = 6241989083535507 / 2 ^ 53"
    unfolding float_div_def
    by (subst round_double_small [where n = 53]) (simp_all add: round_half_even_def)
  show "float_mul (6241989083535507 / 2 ^ 53) 20 = 975310794302423 / 2 ^ 46"
    unfolding float_mul_def
    by (subst round_double_small [where n = 49]) (simp_all add: round_half_even_def)
  show "round_double 3850000 = 3850000"
    by (subst round_double_small [where n = 31]) (simp_all add: round_half_even_def)
  show "float_div 3850000 (10 ^ 9) = 4438747792736361 / 2 ^ 60"
    unfolding float_div_def
    by (subst round_double_small [where n = 61]) (simp_all add: round_half_even_def)
  show "float_mul (4438747792736361 / 2 ^ 60) 1800 = 7802486354419385 / 2 ^ 50"
    unfolding float_mul_def
    by (subst round_double_small [where n = 50]) (simp_all add: round_half_even_def)
  show "float_sub (975310794302423 / 2 ^ 46) (7802486354419385 / 2 ^ 50)
           = 7802486354419383 / 2 ^ 50"
    unfolding float_sub_def
    by (subst round_double_small [where n = 50]) (simp_all add: round_half_even_def)
  show "float_div (7802486354419383 / 2 ^ 50) (7802486354419385 / 2 ^ 50)
           = 4503599627370495 / 2 ^ 52"
    unfolding float_div_def
    by (subst round_double_small [where n = 53]) (simp_all add: round_half_even_def)
  show "float_mul (4503599627370495 / 2 ^ 52) 100 = 3518437208883199 / 2 ^ 45"
    unfolding float_mul_def
    by (subst round_double_small [where n = 46]) (simp_all add: round_half_even_def)
qed

section \<open>Properties of profitability estimation\<close>

lemma resolve_costs_expected_profit:
  "expected_profit (snd (resolve_costs self env)) = expected_profit self"
  by (simp add: resolve_costs_def bind_e_def attr_def number_def Let_def
      split: option.splits sum.splits)

lemma resolve_costs_fixed_fields:
  "transaction_type (snd (resolve_costs self env)) = transaction_type self
   \<and> gas_limit (snd (resolve_costs self env)) = gas_limit self
   \<and> chain_id (snd (resolve_costs self env)) = chain_id self
   \<and> last_submission_timestamp (snd (resolve_costs self env)) = last_submission_timestamp self"
  by (simp add: resolve_costs_def bind_e_def attr_def number_def Let_def
      split: option.splits sum.splits)

lemma ensure_profitable_run:
  assumes "rewards_read env = (Some (tips, tb_reward), rs)" "ok rs"
    and "resolve_costs self env = (Inr costs, self')"
  shows "ensure_profitable self env =
     (case calculate_profit tips tb_reward costs (price_trb_usd env) (price_eth_usd env) of
        Inl err \<Rightarrow> (Inl err, self')
      | Inr est \<Rightarrow>
          (Inr (if below_threshold (expected_profit self) (percent_profit est)
                then ResponseStatus\<lparr>ok := False,
                       error := Some ''Estimated profitability below threshold.''\<rparr>
                else ResponseStatus), self'))"
proof -
  have "expected_profit self' = expected_profit self"
    using resolve_costs_expected_profit [of self env] assms(3) by simp
  then show ?thesis
    using assms by (simp add: ensure_profitable_def split: sum.splits)
qed

lemma calculate_profit_value:
  "calculate_profit tips tb_reward costs (Some p_trb) (Some p_eth) =
     (let rev = float_mul (float_div (float_of_int (tb_reward + tips)) (10 ^ 18)) p_trb;
          cost = float_mul (float_div (round_double costs) (10 ^ 9)) p_eth;
          profit = float_sub rev cost
      in if cost = 0 then Inl ZeroDivisionError
         else Inr \<lparr>rev_usd = rev, costs_usd = cost, profit_usd = profit,
                   percent_profit = float_mul (float_div profit cost) 100\<rparr>)"
  by (simp add: calculate_profit_def bind_e_def number_def Let_def)

lemma calculate_profit_returns:
  assumes "costs / 10 ^ 9 * p_eth \<noteq> 0"
  shows "\<exists>est. calculate_profit tips tb_reward costs (Some p_trb) (Some p_eth) = Inr est"
  using assms unfolding calculate_profit_value Let_def cost_zero_iff by simp


lemma resolve_costs_fee_value:
  assumes "resolve_costs self env = (Inr costs, self')"
  shows "\<exists>fee. (if transaction_type self = 2 then max_fee self' else legacy_gas_price self')
            = Some fee \<and> costs = real_of_int (gas_limit self) * fee"
  using assms
  by (auto simp: resolve_costs_def bind_e_def attr_def number_def Let_def
      split: option.splits sum.splits if_splits)

lemmas example_defs = legacy_reporter_def legacy_env_def eip1559_reporter_def eip1559_env_def
  rounding_reporter_def rounding_env_def ResponseStatus_def


lemma resolve_costs_eip1559_example:
  "resolve_costs eip1559_reporter eip1559_env =
     (Inr 8050000, eip1559_reporter\<lparr>max_fee := Some 23, priority_fee := Some 3\<rparr>)"
  by (simp add: example_defs resolve_costs_def bind_e_def number_def attr_def)

lemma resolve_costs_rounding_example:
  "resolve_costs rounding_reporter rounding_env = (Inr 3850000, rounding_reporter)"
  by (simp add: example_defs resolve_costs_def bind_e_def number_def)

lemma ensure_profitable_eip1559_example:
  "ensure_profitable eip1559_reporter eip1559_env =
     (Inr ResponseStatus, eip1559_reporter\<lparr>max_fee := Some 23, priority_fee := Some 3\<rparr>)"
proof -
  have r: "rewards_read eip1559_env = (Some (5 * 10 ^ 18, 10 ^ 18), ResponseStatus)"
    by (simp add: eip1559_env_def)
  have o: "ok ResponseStatus"
    by (simp add: ResponseStatus_def)
  have p: "price_trb_usd eip1559_env = Some 20" "price_eth_usd eip1559_env = Some 2000"
    by (simp_all add: eip1559_env_def)
  have "\<exists>est. calculate_profit (5 * 10 ^ 18) (10 ^ 18) 8050000 (Some 20) (Some 2000)
      = Inr est"
    by (rule calculate_profit_returns) simp
  then obtain est where "calculate_profit (5 * 10 ^ 18) (10 ^ 18) 8050000 (Some 20) (Some 2000)
      = Inr est"
    by blast
  then show ?thesis
    using ensure_profitable_run [OF r o resolve_costs_eip1559_example]
    by (simp add: p eip1559_reporter_def)
qed

text \<open>
  The estimates of the worked example and of the rounding example. The percent profit of
  the worked example is the double nearest to \<open>-34/35\<close>, times 100, rounded again:
  \<open>-97.14285714285714\<close>. At the rounding example it is \<open>99.99999999999997\<close>.
\<close>

lemma legacy_estimate:
  "calculate_profit 0 (10 ^ 18) 17500000 (Some 1) (Some 2000) =
     Inr \<lparr>rev_usd = 1, costs_usd = 35, profit_usd = - 34,
          percent_profit = - (3417910431486537 / 2 ^ 45)\<rparr>"
proof -
  have "calculate_profit 0 (10 ^ 18) 17500000 (Some 1) (Some 2000) =
     (if (35::real) = 0 then Inl ZeroDivisionError
      else Inr \<lparr>rev_usd = 1, costs_usd = 35, profit_usd = - 34,
                percent_profit = - (3417910431486537 / 2 ^ 45)\<rparr>)"
    by (simp only: calculate_profit_value Let_def legacy_float_values)
  then show ?thesis by simp
qed

lemma rounding_estimate:
  "calculate_profit 0 693000000000000000 3850000 (Some 20) (Some 1800) =
     Inr \<lparr>rev_usd = 975310794302423 / 2 ^ 46, costs_usd = 7802486354419385 / 2 ^ 50,
          profit_usd = 7802486354419383 / 2 ^ 50,
          percent_profit = 3518437208883199 / 2 ^ 45\<rparr>"
proof -
  have "calculate_profit 0 693000000000000000 3850000 (Some 20) (Some 1800) =
     (if (7802486354419385 / 2 ^ 50 :: real) = 0 then Inl ZeroDivisionError
      else Inr \<lparr>rev_usd = 975310794302423 / 2 ^ 46, costs_usd = 7802486354419385 / 2 ^ 50,
          profit_usd = 7802486354419383 / 2 ^ 50,
          percent_profit = 3518437208883199 / 2 ^ 45\<rparr>)"
    by (simp only: calculate_profit_value Let_def rounding_float_values)
  then show ?thesis by simp
qed

lemma rounding_in_range:
  "estimate_in_range 0 693000000000000000 3850000 20 1800"
proof -
  have "estimate_in_range 0 693000000000000000 3850000 20 1800 \<longleftrightarrow>
     double_range (of_int (693000000000000000 + 0))
     \<and> double_range (693000000000000000 / 10 ^ 18)
     \<and> double_range (6241989083535507 / 2 ^ 53 * 20)
     \<and> double_range 3850000 \<and> double_range (3850000 / 10 ^ 9)
     \<and> double_range (4438747792736361 / 2 ^ 60 * 1800)
     \<and> double_range (975310794302423 / 2 ^ 46 - 7802486354419385 / 2 ^ 50)
     \<and> double_range (7802486354419383 / 2 ^ 50 / (7802486354419385 / 2 ^ 50))
     \<and> double_range (4503599627370495 / 2 ^ 52 * 100)"
    by (simp only: estimate_in_range_def Let_def rounding_float_values)
  also have "\<dots>"
    by (simp add: double_range_def)
  finally show ?thesis .
qed

lemma rounding_example_rejected:
  "ensure_profitable rounding_reporter rounding_env =
     (Inr \<lparr>ok = False, error = Some ''Estimated profitability below threshold.'',
           exc = None\<rparr>, rounding_reporter)"
proof -
  have r: "rewards_read rounding_env = (Some (0, 693000000000000000), ResponseStatus)"
    by (simp add: rounding_env_def)
  have o: "ok ResponseStatus"
    by (simp add: ResponseStatus_def)
  have p: "price_trb_usd rounding_env = Some 20" "price_eth_usd rounding_env = Some 1800"
    by (simp_all add: rounding_env_def)
  show ?thesis
    using ensure_profitable_run [OF r o resolve_costs_rounding_example]
    by (simp add: p rounding_estimate rounding_reporter_def ResponseStatus_def)
qed

text \<open>
  Claim C3. When the reward read succeeds, the fee is resolved, both prices are present
  and the cost in USD is not zero, the estimate is made of the float expressions of the
  source: \<open>costs = gas_limit * fee\<close> with \<open>fee\<close> the resolved \<open>max_fee\<close> (type 2) or
  \<open>legacy_gas_price\<close> (legacy), \<open>revenue = tb_reward + tips\<close>,
  \<open>rev_usd = revenue / 1e18 * price_trb_usd\<close>, \<open>costs_usd = costs / 1e9 * price_eth_usd\<close>,
  \<open>profit_usd = rev_usd - costs_usd\<close>, \<open>percent_profit = profit_usd / costs_usd * 100\<close>,
  each operation rounded to a double, and the returned status follows from comparing the
  computed \<open>percent_profit\<close> with the threshold. The statement is made for estimates whose
  intermediate results stay within the normal range of doubles. With gas limit 350000,
  legacy gas price 50, no tips, reward \<open>10^18\<close> and prices 1 and 2000, the values are 1,
  35, -34 and the double that \<open>-34/35*100\<close> evaluates to, and the status is not ok for
  every positive threshold.
\<close>

theorem ensure_profitable_estimate:
  "(rewards_read env = (Some (tips, tb_reward), rs) \<and> ok rs
      \<and> resolve_costs self env = (Inr costs, self')
      \<and> price_trb_usd env = Some p_trb \<and> price_eth_usd env = Some p_eth
      \<and> estimate_in_range tips tb_reward costs p_trb p_eth
      \<and> float_mul (float_div (round_double costs) (10 ^ 9)) p_eth \<noteq> 0
    \<longrightarrow> (\<exists>fee. (if transaction_type self = 2 then max_fee self' else legacy_gas_price self')
                 = Some fee
               \<and> costs = real_of_int (gas_limit self) * fee)
        \<and> (\<exists>est. calculate_profit tips tb_reward costs (Some p_trb) (Some p_eth) = Inr est
             \<and> rev_usd est =
                 float_mul (float_div (float_of_int (tb_reward + tips)) (10 ^ 18)) p_trb
             \<and> costs_usd est = float_mul (float_div (round_double costs) (10 ^ 9)) p_eth
             \<and> profit_usd est = float_sub (rev_usd est) (costs_usd est)
             \<and> percent_profit est =
                 float_mul (float_div (profit_usd est) (costs_usd est)) 100
             \<and> ensure_profitable self env =
                 (Inr (if below_threshold (expected_profit self) (percent_profit est)
                       then \<lparr>ok = False,
                             error = Some ''Estimated profitability below threshold.'',
                             exc = None\<rparr>
                       else \<lparr>ok = True, error = None, exc = None\<rparr>), self')))
   \<and> (transaction_type ex \<noteq> 2 \<and> gas_limit ex = 350000 \<and> legacy_gas_price ex = Some 50
      \<and> expected_profit ex = Profit threshold \<and> 0 < threshold
      \<and> rewards_read ex_env = (Some (0, 10 ^ 18), ex_rs) \<and> ok ex_rs
      \<and> price_trb_usd ex_env = Some 1 \<and> price_eth_usd ex_env = Some 2000
    \<longrightarrow> resolve_costs ex ex_env = (Inr (350000 * 50), ex)
        \<and> calculate_profit 0 (10 ^ 18) (350000 * 50) (Some 1) (Some 2000) =
            Inr \<lparr>rev_usd = 1, costs_usd = 35, profit_usd = - 34,
                 percent_profit = float_mul (float_div (- 34) 35) 100\<rparr>
        \<and> float_mul (float_div (- 34) 35) 100 = - (3417910431486537 / 2 ^ 45)
        \<and> ensure_profitable ex ex_env =
            (Inr \<lparr>ok = False, error = Some ''Estimated profitability below threshold.'',
                  exc = None\<rparr>, ex))"
proof (intro conjI impI)
  assume a: "rewards_read env = (Some (tips, tb_reward), rs) \<and> ok rs
      \<and> resolve_costs self env = (Inr costs, self')
      \<and> price_trb_usd env = Some p_trb \<and> price_eth_usd env = Some p_eth
      \<and> estimate_in_range tips tb_reward costs p_trb p_eth
      \<and> float_mul (float_div (round_double costs) (10 ^ 9)) p_eth \<noteq> 0"
  from a have r: "rewards_read env = (Some (tips, tb_reward), rs)" "ok rs"
    by simp_all
  from a have rc: "resolve_costs self env = (Inr costs, self')"
    by simp
  from a have pr: "price_trb_usd env = Some p_trb" "price_eth_usd env = Some p_eth"
    by simp_all
  from a have nz: "float_mul (float_div (round_double costs) (10 ^ 9)) p_eth \<noteq> 0"
    by blast
  from rc show "\<exists>fee. (if transaction_type self = 2 then max_fee self' else legacy_gas_price self')
                 = Some fee \<and> costs = real_of_int (gas_limit self) * fee"
    by (rule resolve_costs_fee_value)
  let ?rev = "float_mul (float_div (float_of_int (tb_reward + tips)) (10 ^ 18)) p_trb"
  let ?cost = "float_mul (float_div (round_double costs) (10 ^ 9)) p_eth"
  let ?est = "\<lparr>rev_usd = ?rev, costs_usd = ?cost, profit_usd = float_sub ?rev ?cost,
     percent_profit = float_mul (float_div (float_sub ?rev ?cost) ?cost) 100\<rparr>"
  have cp: "calculate_profit tips tb_reward costs (Some p_trb) (Some p_eth) = Inr ?est"
    unfolding calculate_profit_value Let_def using nz by (simp only: if_False)
  have "ensure_profitable self env =
     (Inr (if below_threshold (expected_profit self) (percent_profit ?est)
           then ResponseStatus\<lparr>ok := False,
                  error := Some ''Estimated profitability below threshold.''\<rparr>
           else ResponseStatus), self')"
    using ensure_profitable_run [OF r rc] unfolding pr cp by simp
  then have ep: "ensure_profitable self env =
     (Inr (if below_threshold (expected_profit self) (percent_profit ?est)
           then \<lparr>ok = False, error = Some ''Estimated profitability below threshold.'',
                 exc = None\<rparr>
           else \<lparr>ok = True, error = None, exc = None\<rparr>), self')"
    by (simp add: ResponseStatus_def)
  show "\<exists>est. calculate_profit tips tb_reward costs (Some p_trb) (Some p_eth) = Inr est
             \<and> rev_usd est =
                 float_mul (float_div (float_of_int (tb_reward + tips)) (10 ^ 18)) p_trb
             \<and> costs_usd est = float_mul (float_div (round_double costs) (10 ^ 9)) p_eth
             \<and> profit_usd est = float_sub (rev_usd est) (costs_usd est)
             \<and> percent_profit est =
                 float_mul (float_div (profit_usd est) (costs_usd est)) 100
             \<and> ensure_profitable self env =
                 (Inr (if below_threshold (expected_profit self) (percent_profit est)
                       then \<lparr>ok = False,
                             error = Some ''Estimated profitability below threshold.'',
                             exc = None\<rparr>
                       else \<lparr>ok = True, error = None, exc = None\<rparr>), self')"
    using cp ep by (intro exI [of _ ?est]) simp
next
  assume b: "transaction_type ex \<noteq> 2 \<and> gas_limit ex = 350000 \<and> legacy_gas_price ex = Some 50
      \<and> expected_profit ex = Profit threshold \<and> 0 < threshold
      \<and> rewards_read ex_env = (Some (0, 10 ^ 18), ex_rs) \<and> ok ex_rs
      \<and> price_trb_usd ex_env = Some 1 \<and> price_eth_usd ex_env = Some 2000"
  from b show rc: "resolve_costs ex ex_env = (Inr (350000 * 50), ex)"
    by (simp add: resolve_costs_def bind_e_def number_def)
  have pv: "float_mul (float_div (- 34) 35) 100 = - (3417910431486537 / 2 ^ 45)"
    by (simp only: legacy_float_values)
  then show "float_mul (float_div (- 34) 35) 100 = - (3417910431486537 / 2 ^ 45)" .
  have c: "(350000 * 50 :: real) = 17500000"
    by simp
  show cp: "calculate_profit 0 (10 ^ 18) (350000 * 50) (Some 1) (Some 2000) =
            Inr \<lparr>rev_usd = 1, costs_usd = 35, profit_usd = - 34,
                 percent_profit = float_mul (float_div (- 34) 35) 100\<rparr>"
    unfolding pv c by (rule legacy_estimate)
  from b have r: "rewards_read ex_env = (Some (0, 10 ^ 18), ex_rs)" "ok ex_rs"
    by simp_all
  from b have pr: "price_trb_usd ex_env = Some 1" "price_eth_usd ex_env = Some 2000"
      "expected_profit ex = Profit threshold"
    by simp_all
  from b have pos: "0 < threshold"
    by simp
  have ep: "ensure_profitable ex ex_env =
     (case calculate_profit 0 (10 ^ 18) (350000 * 50) (price_trb_usd ex_env) (price_eth_usd ex_env) of
        Inl err \<Rightarrow> (Inl err, ex)
      | Inr est \<Rightarrow>
          (Inr (if below_threshold (expected_profit ex) (percent_profit est)
                then ResponseStatus\<lparr>ok := False,
                       error := Some ''Estimated profitability below threshold.''\<rparr>
                else ResponseStatus), ex))"
    by (rule ensure_profitable_run [OF r rc])
  show "ensure_profitable ex ex_env =
            (Inr \<lparr>ok = False, error = Some ''Estimated profitability below threshold.'',
                  exc = None\<rparr>, ex)"
    unfolding ep pr cp pv using pos by (simp add: ResponseStatus_def)
qed

theorem ensure_profitable_estimate_witness:
  "(\<exists>est. calculate_profit 0 693000000000000000 3850000 (Some 20) (Some 1800) = Inr est
      \<and> costs_usd est = 7802486354419385 / 2 ^ 50
      \<and> percent_profit est = 3518437208883199 / 2 ^ 45
      \<and> ensure_profitable rounding_reporter rounding_env =
          (Inr \<lparr>ok = False, error = Some ''Estimated profitability below threshold.'',
                exc = None\<rparr>, rounding_reporter))
   \<and> ensure_profitable legacy_reporter legacy_env =
     (Inr \<lparr>ok = False, error = Some ''Estimated profitability below threshold.'',
           exc = None\<rparr>, legacy_reporter)"
proof -
  have cost: "float_mul (float_div (round_double 3850000) (10 ^ 9)) 1800
      = 7802486354419385 / 2 ^ 50"
    by (simp only: rounding_float_values)
  have g: "rewards_read rounding_env = (Some (0, 693000000000000000), ResponseStatus)
      \<and> ok ResponseStatus
      \<and> resolve_costs rounding_reporter rounding_env = (Inr 3850000, rounding_reporter)
      \<and> price_trb_usd rounding_env = Some 20 \<and> price_eth_usd rounding_env = Some 1800
      \<and> estimate_in_range 0 693000000000000000 3850000 20 1800
      \<and> float_mul (float_div (round_double 3850000) (10 ^ 9)) 1800 \<noteq> 0"
    unfolding cost
    by (simp add: resolve_costs_rounding_example rounding_in_range)
       (simp add: example_defs)
  have x: "transaction_type legacy_reporter \<noteq> 2 \<and> gas_limit legacy_reporter = 350000
      \<and> legacy_gas_price legacy_reporter = Some 50
      \<and> expected_profit legacy_reporter = Profit 100 \<and> (0::real) < 100
      \<and> rewards_read legacy_env = (Some (0, 10 ^ 18), ResponseStatus) \<and> ok ResponseStatus
      \<and> price_trb_usd legacy_env = Some 1 \<and> price_eth_usd legacy_env = Some 2000"
    by (simp add: example_defs)
  note t = ensure_profitable_estimate [where env = rounding_env and tips = 0
      and tb_reward = 693000000000000000 and rs = ResponseStatus and self = rounding_reporter
      and costs = 3850000 and self' = rounding_reporter
      and p_trb = 20 and p_eth = 1800 and ex = legacy_reporter and threshold = 100
      and ex_env = legacy_env and ex_rs = ResponseStatus]
  from t g obtain est where e:
      "calculate_profit 0 693000000000000000 3850000 (Some 20) (Some 1800) = Inr est"
      "ensure_profitable rounding_reporter rounding_env =
         (Inr (if below_threshold (expected_profit rounding_reporter) (percent_profit est)
               then \<lparr>ok = False,
                     error = Some ''Estimated profitability below threshold.'',
                     exc = None\<rparr>
               else \<lparr>ok = True, error = None, exc = None\<rparr>), rounding_reporter)"
    by blast
  from e(1) have "est = \<lparr>rev_usd = 975310794302423 / 2 ^ 46,
      costs_usd = 7802486354419385 / 2 ^ 50, profit_usd = 7802486354419383 / 2 ^ 50,
      percent_profit = 3518437208883199 / 2 ^ 45\<rparr>"
    unfolding rounding_estimate by simp
  then have v: "costs_usd est = 7802486354419385 / 2 ^ 50"
      "percent_profit est = 3518437208883199 / 2 ^ 45"
    by simp_all
  from e(2) v have "ensure_profitable rounding_reporter rounding_env =
          (Inr \<lparr>ok = False, error = Some ''Estimated profitability below threshold.'',
                exc = None\<rparr>, rounding_reporter)"
    by (simp add: rounding_reporter_def)
  with e(1) v have first: "\<exists>est. calculate_profit 0 693000000000000000 3850000 (Some 20) (Some 1800) = Inr est
      \<and> costs_usd est = 7802486354419385 / 2 ^ 50
      \<and> percent_profit est = 3518437208883199 / 2 ^ 45
      \<and> ensure_profitable rounding_reporter rounding_env =
          (Inr \<lparr>ok = False, error = Some ''Estimated profitability below threshold.'',
                exc = None\<rparr>, rounding_reporter)"
    by blast
  from t x have "ensure_profitable legacy_reporter legacy_env =
     (Inr \<lparr>ok = False, error = Some ''Estimated profitability below threshold.'',
           exc = None\<rparr>, legacy_reporter)"
    by blast
  with first show ?thesis by blast
qed






lemma legacy_zero_price_is_fetched:
  assumes "transaction_type self \<noteq> 2" and "legacy_gas_price self = Some 0"
    and "gas_station env = Some g"
  shows "resolve_costs self env =
     (Inr (real_of_int (gas_limit self) * g), self\<lparr>legacy_gas_price := Some g\<rparr>)"
  using assms by (simp add: resolve_costs_def bind_e_def number_def)

text \<open>
  Claim C6. A missing price is claimed to end the estimate with a failure status. The
  code does not test the fetched prices: with no reward-token price the product
  \<open>revenue / 1e18 * price_trb_usd\<close> raises \<open>TypeError\<close>, and no status is returned.
  (The fetch of the datafeed value in \<open>report_once\<close> is followed by such a test.)
\<close>

theorem missing_price_raises:
  "ensure_profitable legacy_reporter (legacy_env\<lparr>price_trb_usd := None\<rparr>)
     = (Inl TypeError, legacy_reporter)"
  by (simp add: example_defs ensure_profitable_def resolve_costs_def calculate_profit_def
      bind_e_def number_def)

lemma missing_price_raises_general:
  assumes "rewards_read env = (Some (tips, tb_reward), rs)" and "ok rs"
    and "resolve_costs self env = (Inr costs, self')"
    and "price_trb_usd env = None \<or> price_eth_usd env = None"
  shows "ensure_profitable self env = (Inl TypeError, self')"
  using ensure_profitable_run [OF assms(1,2,3)] assms(4)
  by (auto simp: calculate_profit_def bind_e_def number_def split: option.splits)

theorem missing_price_raises_witness:
  "\<forall>status. fst (ensure_profitable legacy_reporter (legacy_env\<lparr>price_trb_usd := None\<rparr>))
     \<noteq> Inr status"
  using missing_price_raises by simp

lemma resolve_costs_keeps_fees:
  "priority_fee self \<noteq> None \<Longrightarrow> max_fee self \<noteq> None \<Longrightarrow>
   priority_fee (snd (resolve_costs self env)) = priority_fee self
   \<and> max_fee (snd (resolve_costs self env)) = max_fee self"
  by (auto simp: resolve_costs_def bind_e_def attr_def number_def Let_def
      split: option.splits sum.splits)

lemma ensure_profitable_state:
  "snd (ensure_profitable self env) = self
   \<or> snd (ensure_profitable self env) = snd (resolve_costs self env)"
  by (auto simp: ensure_profitable_def Let_def split: option.splits sum.splits prod.splits)

lemma ensure_profitable_keeps_fees:
  assumes "priority_fee self \<noteq> None" and "max_fee self \<noteq> None"
  shows "priority_fee (snd (ensure_profitable self env)) = priority_fee self
   \<and> max_fee (snd (ensure_profitable self env)) = max_fee self"
  using ensure_profitable_state [of self env] resolve_costs_keeps_fees [OF assms, of env]
  by auto

lemma resolve_costs_type2:
  assumes "transaction_type self = 2" and "fee_info env = Some fi"
  shows "resolve_costs self env =
     (let pf = (case priority_fee self of None \<Rightarrow> SafeGasPrice fi | Some p \<Rightarrow> p);
          mf = (case max_fee self of None \<Rightarrow> pf + suggestBaseFee fi | Some m \<Rightarrow> m)
      in (Inr (real_of_int (gas_limit self) * mf),
          self\<lparr>priority_fee := Some pf, max_fee := Some mf\<rparr>))"
proof (cases self)
  case (fields ep tt gl mf pf lg ci ls)
  with assms show ?thesis
    by (cases pf; cases mf)
      (simp_all add: resolve_costs_def bind_e_def attr_def number_def Let_def)
qed

text \<open>
  Claim C7. For a type 2 reporter whose reward read succeeds and whose gas price
  datapoint is present: an unset \<open>priority_fee\<close> becomes the datapoint's \<open>SafeGasPrice\<close>,
  an unset \<open>max_fee\<close> becomes \<open>priority_fee + suggestBaseFee\<close>, set values are kept, both
  are stored on the reporter, and every later call of \<open>ensure_profitable\<close> on that
  reporter leaves both as they are.
\<close>

theorem fees_resolved_and_kept:
  assumes "transaction_type self = 2" and "fee_info env = Some fi"
    and "rewards_read env = (Some rewards, rs)" and "ok rs"
    and "pf = (case priority_fee self of None \<Rightarrow> SafeGasPrice fi | Some p \<Rightarrow> p)"
    and "self' = snd (ensure_profitable self env)"
  shows "priority_fee self' = Some pf
     \<and> max_fee self' = Some (case max_fee self of None \<Rightarrow> pf + suggestBaseFee fi | Some m \<Rightarrow> m)
     \<and> (\<forall>env'. priority_fee (snd (ensure_profitable self' env')) = priority_fee self'
              \<and> max_fee (snd (ensure_profitable self' env')) = max_fee self')"
proof -
  obtain tips tb_reward where rw: "rewards = (tips, tb_reward)" by (cases rewards)
  let ?mf = "case max_fee self of None \<Rightarrow> pf + suggestBaseFee fi | Some m \<Rightarrow> m"
  have rc: "resolve_costs self env =
      (Inr (real_of_int (gas_limit self) * ?mf), self\<lparr>priority_fee := Some pf, max_fee := Some ?mf\<rparr>)"
    unfolding assms(5) using resolve_costs_type2 [OF assms(1,2)] by (simp add: Let_def)
  have "snd (ensure_profitable self env) = self\<lparr>priority_fee := Some pf, max_fee := Some ?mf\<rparr>"
    using ensure_profitable_run [OF assms(3) [unfolded rw] assms(4) rc]
    by (simp split: sum.splits)
  then have s: "self' = self\<lparr>priority_fee := Some pf, max_fee := Some ?mf\<rparr>"
    using assms(6) by simp
  have p: "priority_fee self' = Some pf" and m: "max_fee self' = Some ?mf"
    by (simp_all add: s)
  have "priority_fee (snd (ensure_profitable self' env')) = priority_fee self'
     \<and> max_fee (snd (ensure_profitable self' env')) = max_fee self'" for env'
    by (rule ensure_profitable_keeps_fees) (simp_all add: p m)
  with p m show ?thesis by blast
qed

theorem fees_resolved_and_kept_witness:
  "priority_fee (snd (ensure_profitable eip1559_reporter eip1559_env)) = Some 3
   \<and> max_fee (snd (ensure_profitable eip1559_reporter eip1559_env)) = Some 23
   \<and> (\<forall>env'. priority_fee (snd (ensure_profitable
                 (snd (ensure_profitable eip1559_reporter eip1559_env)) env')) = Some 3
            \<and> max_fee (snd (ensure_profitable
                 (snd (ensure_profitable eip1559_reporter eip1559_env)) env')) = Some 23)"
proof -
  have t: "transaction_type eip1559_reporter = 2"
    by (simp add: eip1559_reporter_def)
  have f: "fee_info eip1559_env = Some \<lparr>suggestBaseFee = 20, SafeGasPrice = 3\<rparr>"
    by (simp add: eip1559_env_def)
  have r: "rewards_read eip1559_env = (Some (5 * 10 ^ 18, 10 ^ 18), ResponseStatus)"
    by (simp add: eip1559_env_def)
  have o: "ok ResponseStatus"
    by (simp add: ResponseStatus_def)
  have p: "(3::real) = (case priority_fee eip1559_reporter of
      None \<Rightarrow> SafeGasPrice \<lparr>suggestBaseFee = 20, SafeGasPrice = 3\<rparr> | Some p \<Rightarrow> p)"
    by (simp add: eip1559_reporter_def)
  from fees_resolved_and_kept [OF t f r o p refl] show ?thesis
    by (simp add: eip1559_reporter_def)
qed

section \<open>Properties of the bundle submission\<close>

lemma send_bundles_eq:
  "send_bundles b targets results rl =
     (results @ map (\<lambda>t. (b, t)) targets, rl\<lparr>sent := sent rl @ map (\<lambda>t. (b, t)) targets\<rparr>)"
  by (induction targets arbitrary: results rl) simp_all

lemma submit_bundle_relay:
  "snd (snd (submit_bundle self env rl status b)) =
     rl\<lparr>sent := sent rl @ map (\<lambda>k. (b, block_number env + k)) [1, 2, 3, 4, 5],
        waited := waited rl @ [block_number env + 5],
        receipts_read := receipts_read rl @ [block_number env + 5]\<rparr>"
  by (simp add: submit_bundle_def send_bundles_eq last_item_def bind_e_def Let_def
      split: sum.splits error.splits)

lemma resolve_costs_build_fees:
  "resolve_costs self env = (Inr costs, self') \<Longrightarrow> \<exists>fees. build_fees self' = Inr fees"
proof (cases self)
  case (fields ep tt gl mf pf lg ci ls)
  assume "resolve_costs self env = (Inr costs, self')"
  with fields show ?thesis
    by (cases pf; cases mf; cases lg; cases "gas_station env"; cases "fee_info env")
       (auto simp: resolve_costs_def build_fees_def bind_e_def attr_def number_def Let_def
          split: if_splits)
qed

lemma ensure_profitable_ok_build_fees:
  assumes "ensure_profitable self env = (Inr status, self')" and "ok status"
  shows "\<exists>fees. build_fees self' = Inr fees"
proof -
  from assms obtain costs where "resolve_costs self env = (Inr costs, self')"
    by (auto simp: ensure_profitable_def Let_def ResponseStatus_def
        split: option.splits sum.splits prod.splits if_splits)
  then show ?thesis by (rule resolve_costs_build_fees)
qed

lemma report_once_submits:
  assumes "ok (lock_status env)"
    and "ensure_profitable self (profit_inputs env) = (Inr status, self1)" and "ok status"
    and "latest_data env \<noteq> None" and "encoded env = Inr v"
    and "ok (snd (timestamp_count_read env))"
  shows "\<exists>fees. build_fees self1 = Inr fees \<and> report_once self env rl =
     submit_bundle self1 env rl ResponseStatus
       [Signed \<lparr>arg_queryId = query_id env, arg_value = v,
                arg_nonce = fst (timestamp_count_read env), arg_queryData = query_data env,
                tx_nonce = transaction_count env, tx_gas = gas_limit self1,
                tx_fees = fees, tx_chainId = chain_id self1\<rparr>]"
proof -
  from ensure_profitable_ok_build_fees [OF assms(2,3)]
  obtain fees where f: "build_fees self1 = Inr fees" by blast
  with assms show ?thesis
    by (auto simp: report_once_def Let_def)
qed

lemma report_once_locked:
  "\<not> ok (lock_status env) \<Longrightarrow>
   report_once self env rl = (Inr (None, lock_status env), self, rl)"
  by (simp add: report_once_def)

text \<open>
  Claim C8. Every run of \<open>report_once\<close> that reaches the submission (the lock check and
  the profitability estimate are ok, the datafeed value is present and encodes, the read of
  the timestamp count is ok) hands one and the same one-transaction bundle to the relay
  five times, for the blocks \<open>b + 1\<close> to \<open>b + 5\<close> after the current block \<open>b\<close> in this
  order, and calls \<open>wait()\<close> and \<open>receipts()\<close> once, on the submission for block \<open>b + 5\<close>.
\<close>

theorem bundle_sent_to_five_blocks:
  assumes "ok (lock_status env)"
    and "ensure_profitable self (profit_inputs env) = (Inr status, self1)" and "ok status"
    and "latest_data env \<noteq> None" and "encoded env = Inr v"
    and "ok (snd (timestamp_count_read env))"
  shows "\<exists>tx outcome self'. report_once self env rl =
     (outcome, self',
      rl\<lparr>sent := sent rl @
            [([Signed tx], block_number env + 1), ([Signed tx], block_number env + 2),
             ([Signed tx], block_number env + 3), ([Signed tx], block_number env + 4),
             ([Signed tx], block_number env + 5)],
         waited := waited rl @ [block_number env + 5],
         receipts_read := receipts_read rl @ [block_number env + 5]\<rparr>)"
proof -
  from report_once_submits [OF assms, of rl]
  obtain tx where r: "report_once self env rl =
      submit_bundle self1 env rl ResponseStatus [Signed tx]"
    by blast
  obtain outcome self' rl' where s: "submit_bundle self1 env rl ResponseStatus [Signed tx]
      = (outcome, self', rl')"
    by (cases "submit_bundle self1 env rl ResponseStatus [Signed tx]")
  from submit_bundle_relay [of self1 env rl ResponseStatus "[Signed tx]"] s
  have "rl' = rl\<lparr>sent := sent rl @
            [([Signed tx], block_number env + 1), ([Signed tx], block_number env + 2),
             ([Signed tx], block_number env + 3), ([Signed tx], block_number env + 4),
             ([Signed tx], block_number env + 5)],
         waited := waited rl @ [block_number env + 5],
         receipts_read := receipts_read rl @ [block_number env + 5]\<rparr>"
    by simp
  with r s have "report_once self env rl =
     (outcome, self',
      rl\<lparr>sent := sent rl @
            [([Signed tx], block_number env + 1), ([Signed tx], block_number env + 2),
             ([Signed tx], block_number env + 3), ([Signed tx], block_number env + 4),
             ([Signed tx], block_number env + 5)],
         waited := waited rl @ [block_number env + 5],
         receipts_read := receipts_read rl @ [block_number env + 5]\<rparr>)"
    by simp
  then show ?thesis by (intro exI)
qed

theorem bundle_sent_to_five_blocks_witness:
  "\<exists>tx outcome self'. report_once eip1559_reporter example_env idle_relay =
     (outcome, self',
      \<lparr>sent = [([Signed tx], 15000001), ([Signed tx], 15000002), ([Signed tx], 15000003),
               ([Signed tx], 15000004), ([Signed tx], 15000005)],
       waited = [15000005], receipts_read = [15000005]\<rparr>)"
proof -
  have l: "ok (lock_status example_env)"
    by (simp add: example_env_def ResponseStatus_def)
  have p: "ensure_profitable eip1559_reporter (profit_inputs example_env) =
      (Inr ResponseStatus, eip1559_reporter\<lparr>max_fee := Some 23, priority_fee := Some 3\<rparr>)"
    using ensure_profitable_eip1559_example by (simp add: example_env_def)
  have o: "ok ResponseStatus"
    by (simp add: ResponseStatus_def)
  have d: "latest_data example_env \<noteq> None"
    by (simp add: example_env_def)
  have e: "encoded example_env = Inr ''0xa2a15d09519be00000''"
    by (simp add: example_env_def)
  have t: "ok (snd (timestamp_count_read example_env))"
    by (simp add: example_env_def ResponseStatus_def)
  from bundle_sent_to_five_blocks [OF l p o d e t, of idle_relay] show ?thesis
    by (simp add: idle_relay_def example_env_def)
qed

lemma submit_bundle_not_found:
  assumes "bundle_receipts env (block_number env + 5) = Inl (TransactionNotFound msg)"
  shows "fst (submit_bundle self env rl status b) =
     Inr (None, status\<lparr>error := Some (''Bundle was not executed: '' @ msg),
                  exc := Some (TransactionNotFound msg)\<rparr>)"
  using assms
  by (simp add: submit_bundle_def send_bundles_eq last_item_def bind_e_def Let_def)

lemma submit_bundle_receipt:
  assumes "bundle_receipts env (block_number env + 5) = Inr (tx_receipt # others)"
  shows "fst (submit_bundle self env rl status b) = Inr (Some tx_receipt, ResponseStatus)
     \<and> fst (snd (submit_bundle self env rl status b)) = self\<lparr>last_submission_timestamp := 0\<rparr>"
  using assms
  by (simp add: submit_bundle_def send_bundles_eq last_item_def first_item_def bind_e_def
      Let_def ResponseStatus_def)

text \<open>
  Claim C9. After the wait, a failed receipt lookup is claimed to give a failure status
  (\<open>ok = false\<close>, no receipt), and a found receipt a successful status with the
  last-submission timestamp reset. The second part holds (\<open>submit_bundle_receipt\<close>), and
  nothing is retried. In the handler of \<open>TransactionNotFound\<close> the code assigns \<open>error\<close>
  and \<open>e\<close> of the status but not \<open>ok\<close>, so the status returned with no receipt is still ok.
\<close>

theorem bundle_not_executed_status:
  "fst (report_once eip1559_reporter example_env idle_relay) =
     Inr (None, \<lparr>ok = True, error = Some ''Bundle was not executed: 0xab not found'',
                 exc = Some (TransactionNotFound ''0xab not found'')\<rparr>)"
proof -
  have l: "ok (lock_status example_env)"
    by (simp add: example_env_def ResponseStatus_def)
  have p: "ensure_profitable eip1559_reporter (profit_inputs example_env) =
      (Inr ResponseStatus, eip1559_reporter\<lparr>max_fee := Some 23, priority_fee := Some 3\<rparr>)"
    using ensure_profitable_eip1559_example by (simp add: example_env_def)
  have o: "ok ResponseStatus"
    by (simp add: ResponseStatus_def)
  have d: "latest_data example_env \<noteq> None"
    by (simp add: example_env_def)
  have e: "encoded example_env = Inr ''0xa2a15d09519be00000''"
    by (simp add: example_env_def)
  have t: "ok (snd (timestamp_count_read example_env))"
    by (simp add: example_env_def ResponseStatus_def)
  have n: "bundle_receipts example_env (block_number example_env + 5) =
      Inl (TransactionNotFound ''0xab not found'')"
    by (simp add: example_env_def)
  from report_once_submits [OF l p o d e t, of idle_relay] submit_bundle_not_found [OF n]
  show ?thesis
    by (auto simp: ResponseStatus_def)
qed

theorem bundle_not_executed_status_witness:
  "\<exists>status. fst (report_once eip1559_reporter example_env idle_relay) = Inr (None, status)
     \<and> ok status \<and> error status \<noteq> None"
  using bundle_not_executed_status by simp

lemma report_once_not_found:
  assumes "ok (lock_status env)"
    and "ensure_profitable self (profit_inputs env) = (Inr status, self1)" and "ok status"
    and "latest_data env \<noteq> None" and "encoded env = Inr v"
    and "ok (snd (timestamp_count_read env))"
    and "bundle_receipts env (block_number env + 5) = Inl (TransactionNotFound msg)"
  shows "fst (report_once self env rl) =
     Inr (None, \<lparr>ok = True, error = Some (''Bundle was not executed: '' @ msg),
                 exc = Some (TransactionNotFound msg)\<rparr>)"
  using report_once_submits [OF assms(1-6), of rl] submit_bundle_not_found [OF assms(7)]
  by (auto simp: ResponseStatus_def)

lemma report_once_reward_read_failure:
  assumes "ok (lock_status env)"
    and "rewards_read (profit_inputs env) = (rewards, read_status)"
    and "\<not> ok read_status" and "error read_status = Some msg"
  shows "report_once self env rl =
     (Inr (None, \<lparr>ok = False,
                  error = Some (''Unable to retrieve queryID's current rewards:'' @ msg),
                  exc = exc read_status\<rparr>), self, rl)"
  using assms by (simp add: report_once_def ensure_profitable_def ResponseStatus_def)

lemma flashbots_report_cycle:
  "report_once self env rl = (Inr res, self', rl') \<Longrightarrow>
   flashbots_report self (env # envs) rl slept = flashbots_report self' envs rl' (slept @ [7])"
  by simp

lemma flashbots_report_crash:
  "report_once self env rl = (Inl err, self', rl') \<Longrightarrow>
   flashbots_report self (env # envs) rl slept = ((Crashed err, slept), self', rl')"
  by simp

end
